theory Spec2Isabelle
  imports Complex_Main
begin

section \<open>Time values and the calendar of the JavaScript Date\<close>

text \<open>
  A JavaScript \<^verbatim>\<open>Date\<close> holds a time value: the number of milliseconds since
  1970-01-01T00:00:00Z. The calendar functions below are the ones of the ECMAScript
  specification (Day, TimeWithinDay, DaysInYear, DayFromYear, YearFromTime, MonthFromTime,
  DateFromTime, MakeTime, MakeDay, MakeDate, LocalTime, UTC), which every method of
  \<^verbatim>\<open>Date\<close> used by the program is defined from.

  Platform assumptions of the model: time values are unbounded integers (the range limit
  of 8.64e15 ms and the constructor's reading of the years 0 to 99 as 1900 to 1999 are
  left out, no system clock delivers such instants), and the local time zone is a fixed
  offset \<open>tza\<close> in milliseconds for the life of the page.
\<close>

definition msPerSecond :: int where "msPerSecond = 1000"
definition msPerMinute :: int where "msPerMinute = 60000"
definition msPerHour :: int where "msPerHour = 3600000"
definition msPerDay :: int where "msPerDay = 86400000"

definition Day :: "int \<Rightarrow> int" where
  "Day t = t div msPerDay"

definition TimeWithinDay :: "int \<Rightarrow> int" where
  "TimeWithinDay t = t mod msPerDay"

definition DaysInYear :: "int \<Rightarrow> int" where
  "DaysInYear y =
     (if y mod 4 \<noteq> 0 then 365
      else if y mod 100 \<noteq> 0 then 366
      else if y mod 400 \<noteq> 0 then 365
      else 366)"

definition DayFromYear :: "int \<Rightarrow> int" where
  "DayFromYear y =
     365 * (y - 1970) + (y - 1969) div 4 - (y - 1901) div 100 + (y - 1601) div 400"

definition TimeFromYear :: "int \<Rightarrow> int" where
  "TimeFromYear y = msPerDay * DayFromYear y"

lemma div_step:
  fixes x k :: int
  assumes k: "0 < k"
  shows "(x + 1) div k = x div k + (if (x + 1) mod k = 0 then 1 else 0)"
proof -
  define q r where "q = x div k" and "r = x mod k"
  have x: "x = k * q + r" and r: "0 \<le> r" "r < k"
    using k by (simp_all add: q_def r_def)
  show ?thesis
  proof (cases "r + 1 = k")
    case True
    then have e: "x + 1 = k * (q + 1) + 0"
      using x by (simp add: algebra_simps)
    have "(x + 1) div k = q + 1"
      using int_div_pos_eq[OF e] k by simp
    moreover have "(x + 1) mod k = 0"
      using int_mod_pos_eq[OF e] k by simp
    ultimately show ?thesis by (simp add: q_def)
  next
    case False
    then have lt: "r + 1 < k" using r by simp
    have e: "x + 1 = k * q + (r + 1)" using x by simp
    have "(x + 1) div k = q"
      using int_div_pos_eq[OF e _ lt] r by simp
    moreover have "(x + 1) mod k = r + 1"
      using int_mod_pos_eq[OF e _ lt] r by simp
    ultimately show ?thesis using r by (simp add: q_def)
  qed
qed

lemma mod4_shift: "(y - 1968) mod 4 = 0 \<longleftrightarrow> y mod 4 = (0::int)"
  by presburger

lemma mod100_shift: "(y - 1900) mod 100 = 0 \<longleftrightarrow> y mod 100 = (0::int)"
  by presburger

lemma mod400_shift: "(y - 1600) mod 400 = 0 \<longleftrightarrow> y mod 400 = (0::int)"
  by presburger

lemma mod100_mod4: "y mod 100 = 0 \<Longrightarrow> y mod 4 = (0::int)"
  by presburger

lemma mod400_mod100: "y mod 400 = 0 \<Longrightarrow> y mod 100 = (0::int)"
  by presburger

lemma DayFromYear_next: "DayFromYear (y + 1) = DayFromYear y + DaysInYear y"
proof -
  have a: "(y + 1 - 1969) div 4 = (y - 1969) div 4 + (if y mod 4 = 0 then 1 else 0)"
    using div_step[of 4 "y - 1969"] mod4_shift[of y] by (simp add: algebra_simps)
  have b: "(y + 1 - 1901) div 100 = (y - 1901) div 100 + (if y mod 100 = 0 then 1 else 0)"
    using div_step[of 100 "y - 1901"] mod100_shift[of y] by (simp add: algebra_simps)
  have c: "(y + 1 - 1601) div 400 = (y - 1601) div 400 + (if y mod 400 = 0 then 1 else 0)"
    using div_step[of 400 "y - 1601"] mod400_shift[of y] by (simp add: algebra_simps)
  show ?thesis
    unfolding DayFromYear_def DaysInYear_def a b c
    using mod100_mod4[of y] mod400_mod100[of y] by auto
qed

lemma DaysInYear_cases: "DaysInYear y = 365 \<or> DaysInYear y = 366"
  by (simp add: DaysInYear_def)

lemma DayFromYear_less_next: "DayFromYear y < DayFromYear (y + 1)"
  using DaysInYear_cases[of y] by (auto simp: DayFromYear_next)

lemma DayFromYear_prev_less: "DayFromYear (y - 1) < DayFromYear y"
  using DayFromYear_less_next[of "y - 1"] by simp

text \<open>
  ECMAScript: YearFromTime(t) is the largest year \<open>y\<close> with \<open>TimeFromYear y \<le> t\<close>.
  It is computed here from an estimate of the year, walking down to a year that starts
  on or before the day and then up to the last such year.
\<close>

function year_down :: "int \<Rightarrow> int \<Rightarrow> int" where
  "year_down y d = (if d < DayFromYear y then year_down (y - 1) d else y)"
  by pat_completeness auto
termination
proof (relation "measure (\<lambda>(y, d). nat (DayFromYear y - d))")
  show "wf (measure (\<lambda>(y, d). nat (DayFromYear y - d)))" by simp
next
  fix y d :: int
  assume "d < DayFromYear y"
  then show "((y - 1, d), (y, d)) \<in> measure (\<lambda>(y, d). nat (DayFromYear y - d))"
    using DayFromYear_prev_less[of y] by simp
qed

function year_up :: "int \<Rightarrow> int \<Rightarrow> int" where
  "year_up y d = (if DayFromYear (y + 1) \<le> d then year_up (y + 1) d else y)"
  by pat_completeness auto
termination
proof (relation "measure (\<lambda>(y, d). nat (d - DayFromYear y))")
  show "wf (measure (\<lambda>(y, d). nat (d - DayFromYear y)))" by simp
next
  fix y d :: int
  assume "DayFromYear (y + 1) \<le> d"
  then show "((y + 1, d), (y, d)) \<in> measure (\<lambda>(y, d). nat (d - DayFromYear y))"
    using DayFromYear_less_next[of y] by simp
qed

definition YearFromDay :: "int \<Rightarrow> int" where
  "YearFromDay d = year_up (year_down (1970 + d div 365) d) d"

definition YearFromTime :: "int \<Rightarrow> int" where
  "YearFromTime t = YearFromDay (Day t)"

definition InLeapYear :: "int \<Rightarrow> int" where
  "InLeapYear t = (if DaysInYear (YearFromTime t) = 366 then 1 else 0)"

definition DayWithinYear :: "int \<Rightarrow> int" where
  "DayWithinYear t = Day t - DayFromYear (YearFromTime t)"

definition MonthFromTime :: "int \<Rightarrow> int" where
  "MonthFromTime t =
     (let d = DayWithinYear t; l = InLeapYear t in
      if d < 31 then 0
      else if d < 59 + l then 1
      else if d < 90 + l then 2
      else if d < 120 + l then 3
      else if d < 151 + l then 4
      else if d < 181 + l then 5
      else if d < 212 + l then 6
      else if d < 243 + l then 7
      else if d < 273 + l then 8
      else if d < 304 + l then 9
      else if d < 334 + l then 10
      else 11)"

definition DateFromTime :: "int \<Rightarrow> int" where
  "DateFromTime t =
     (let d = DayWithinYear t; l = InLeapYear t; m = MonthFromTime t in
      if m = 0 then d + 1
      else if m = 1 then d - 30
      else if m = 2 then d - 58 - l
      else if m = 3 then d - 89 - l
      else if m = 4 then d - 119 - l
      else if m = 5 then d - 150 - l
      else if m = 6 then d - 180 - l
      else if m = 7 then d - 211 - l
      else if m = 8 then d - 242 - l
      else if m = 9 then d - 272 - l
      else if m = 10 then d - 303 - l
      else d - 333 - l)"

definition HourFromTime :: "int \<Rightarrow> int" where
  "HourFromTime t = (t div msPerHour) mod 24"

definition MinFromTime :: "int \<Rightarrow> int" where
  "MinFromTime t = (t div msPerMinute) mod 60"

definition SecFromTime :: "int \<Rightarrow> int" where
  "SecFromTime t = (t div msPerSecond) mod 60"

definition msFromTime :: "int \<Rightarrow> int" where
  "msFromTime t = t mod msPerSecond"

definition MakeTime :: "int \<Rightarrow> int \<Rightarrow> int \<Rightarrow> int \<Rightarrow> int" where
  "MakeTime h m s milli = h * msPerHour + m * msPerMinute + s * msPerSecond + milli"

text \<open>The day of the year on which month \<open>mn\<close> (0 to 11) starts; \<open>l\<close> is 1 in a leap year.\<close>

definition DaysBeforeMonth :: "int \<Rightarrow> int \<Rightarrow> int" where
  "DaysBeforeMonth mn l =
     (if mn = 0 then 0
      else if mn = 1 then 31
      else if mn = 2 then 59 + l
      else if mn = 3 then 90 + l
      else if mn = 4 then 120 + l
      else if mn = 5 then 151 + l
      else if mn = 6 then 181 + l
      else if mn = 7 then 212 + l
      else if mn = 8 then 243 + l
      else if mn = 9 then 273 + l
      else if mn = 10 then 304 + l
      else 334 + l)"

definition MakeDay :: "int \<Rightarrow> int \<Rightarrow> int \<Rightarrow> int" where
  "MakeDay year month date =
     (let ym = year + month div 12;
          mn = month mod 12;
          l = (if DaysInYear ym = 366 then 1 else 0)
      in DayFromYear ym + DaysBeforeMonth mn l + date - 1)"

definition MakeDate :: "int \<Rightarrow> int \<Rightarrow> int" where
  "MakeDate day time = day * msPerDay + time"

definition LocalTime :: "int \<Rightarrow> int \<Rightarrow> int" where
  "LocalTime tza t = t + tza"

definition UTC :: "int \<Rightarrow> int \<Rightarrow> int" where
  "UTC tza t = t - tza"

subsection \<open>The methods of Date the program calls\<close>

text \<open>\<^verbatim>\<open>new Date(year, month, date, hours, minutes, seconds)\<close>: the fields are local time.\<close>

definition Date_of_fields :: "int \<Rightarrow> int \<Rightarrow> int \<Rightarrow> int \<Rightarrow> int \<Rightarrow> int \<Rightarrow> int \<Rightarrow> int" where
  "Date_of_fields tza year month date hours minutes seconds =
     UTC tza (MakeDate (MakeDay year month date) (MakeTime hours minutes seconds 0))"

definition getFullYear :: "int \<Rightarrow> int \<Rightarrow> int" where
  "getFullYear tza t = YearFromTime (LocalTime tza t)"

definition getMonth :: "int \<Rightarrow> int \<Rightarrow> int" where
  "getMonth tza t = MonthFromTime (LocalTime tza t)"

definition getDate :: "int \<Rightarrow> int \<Rightarrow> int" where
  "getDate tza t = DateFromTime (LocalTime tza t)"

definition getHours :: "int \<Rightarrow> int \<Rightarrow> int" where
  "getHours tza t = HourFromTime (LocalTime tza t)"

definition getMinutes :: "int \<Rightarrow> int \<Rightarrow> int" where
  "getMinutes tza t = MinFromTime (LocalTime tza t)"

definition getSeconds :: "int \<Rightarrow> int \<Rightarrow> int" where
  "getSeconds tza t = SecFromTime (LocalTime tza t)"

definition getMilliseconds :: "int \<Rightarrow> int \<Rightarrow> int" where
  "getMilliseconds tza t = msFromTime (LocalTime tza t)"

definition setFullYear :: "int \<Rightarrow> int \<Rightarrow> int \<Rightarrow> int" where
  "setFullYear tza t year =
     (let lt = LocalTime tza t in
      UTC tza (MakeDate (MakeDay year (MonthFromTime lt) (DateFromTime lt)) (TimeWithinDay lt)))"

subsection \<open>getDeadline\<close>

text \<open>
  \<^verbatim>\<open>getDeadline\<close> of the application: November 30, 23:59:59 local time of the current
  year, moved to the next year with \<^verbatim>\<open>setFullYear\<close> when \<^verbatim>\<open>now > deadline\<close>.
  \<open>now\<close> is the reading of the clock by \<^verbatim>\<open>new Date()\<close>.
\<close>

definition getDeadline :: "int \<Rightarrow> int \<Rightarrow> int" where
  "getDeadline tza now =
     (let year = getFullYear tza now;
          deadline = Date_of_fields tza year 10 30 23 59 59
      in if now > deadline then setFullYear tza deadline (year + 1) else deadline)"

section \<open>Strings, provider responses and the environment\<close>

text \<open>
  A JavaScript string is a sequence of UTF-16 code units. The fallback messages of the
  program are Chinese text, which lies in the Basic Multilingual Plane: one code unit per
  character.
\<close>

type_synonym jsstring = "nat list"

definition ascii :: "string \<Rightarrow> jsstring" where
  "ascii s = map of_char s"

text \<open>The decimal rendering of an integer inside a template literal.\<close>

fun digits :: "nat \<Rightarrow> jsstring" where
  "digits n = (if n < 10 then [48 + n] else digits (n div 10) @ [48 + n mod 10])"

definition Number_toString :: "int \<Rightarrow> jsstring" where
  "Number_toString n = (if n < 0 then 45 # digits (nat (- n)) else digits (nat n))"

text \<open>\<^verbatim>\<open>String.prototype.trim\<close> removes the WhiteSpace and LineTerminator code units at both ends.\<close>

definition isWhiteSpace :: "nat \<Rightarrow> bool" where
  "isWhiteSpace c \<longleftrightarrow>
     c = 9 \<or> c = 10 \<or> c = 11 \<or> c = 12 \<or> c = 13 \<or> c = 32 \<or> c = 160 \<or> c = 5760
     \<or> (8192 \<le> c \<and> c \<le> 8202)
     \<or> c = 8232 \<or> c = 8233 \<or> c = 8239 \<or> c = 8287 \<or> c = 12288 \<or> c = 65279"

definition trim :: "jsstring \<Rightarrow> jsstring" where
  "trim s = rev (dropWhile isWhiteSpace (rev (dropWhile isWhiteSpace s)))"

text \<open>A thrown value: an \<^verbatim>\<open>Error\<close> with its message.\<close>

datatype error = Error jsstring

text \<open>
  The response of \<^verbatim>\<open>ai.models.generateContent\<close>, as far as the program reads it:
  \<^verbatim>\<open>response.text\<close> and \<^verbatim>\<open>response.candidates[i].content.parts[j].inlineData.data\<close>,
  every link of which may be missing.
\<close>

datatype Blob = Blob (blob_data: "jsstring option")

datatype Part = Part (part_inlineData: "Blob option")

datatype Content = Content (content_parts: "Part list option")

datatype Candidate = Candidate (candidate_content: "Content option")

record GenerateContentResponse =
  response_text :: "jsstring option"
  response_candidates :: "Candidate list option"

datatype GoogleGenAI = GoogleGenAI (apiKey: jsstring)

datatype AudioBuffer = AudioBuffer nat

datatype AudioContext = AudioContext (sampleRate: nat)

record SafetyImageResponse =
  imageUrl :: "jsstring option"
  description :: jsstring

text \<open>
  What the program reads from outside itself: the time zone, \<^verbatim>\<open>process.env.API_KEY\<close>,
  the remote service behind \<^verbatim>\<open>generateContent\<close> (client, model name and contents
  to a response or a thrown error), the audio decoding of \<^verbatim>\<open>./utils\<close>
  (\<^verbatim>\<open>decodeAudioData(decode(base64), ctx, 24000, 1)\<close>, whose code is not part of the
  program text under study), and the audio output of the browser.

  \<open>decodeAudioData\<close> stands for the two statements of \<^verbatim>\<open>generateSpeech\<close> that build the
  buffer inside its \<^verbatim>\<open>try\<close> block, the construction of the output audio context and the
  decoding: either may throw. \<open>startPlayback\<close> stands for the playback statements of
  \<^verbatim>\<open>triggerReminder\<close> (\<^verbatim>\<open>new AudioContext()\<close>, \<^verbatim>\<open>createBufferSource\<close>, \<^verbatim>\<open>connect\<close>,
  \<^verbatim>\<open>start(0)\<close>), which are in no \<^verbatim>\<open>try\<close> block: \<open>Inl\<close> is what one of them throws
  (a browser refuses a further audio context, say), \<open>Inr\<close> that the source was started.
\<close>

record Env =
  LocalTZA :: int
  API_KEY :: "jsstring option"
  generateContent :: "GoogleGenAI \<Rightarrow> jsstring \<Rightarrow> jsstring \<Rightarrow> error + GenerateContentResponse"
  decodeAudioData :: "jsstring \<Rightarrow> error + AudioBuffer"
  startPlayback :: "AudioBuffer \<Rightarrow> error + unit"

section \<open>The application\<close>

datatype UrgencyLevel = LOW | MEDIUM | HIGH | CRITICAL

text \<open>
  The state of the page: the module constants \<^verbatim>\<open>DEADLINE\<close> and \<^verbatim>\<open>genAI\<close>, the
  state variables of the component \<^verbatim>\<open>App\<close> and its ref \<^verbatim>\<open>lastHourCheckRef\<close>.
\<close>

record App =
  DEADLINE :: int
  genAI :: "GoogleGenAI option"
  isSoundEnabled :: bool
  showPopup :: bool
  currentMessage :: jsstring
  safetyImageUrl :: "jsstring option"
  isImageLoading :: bool
  urgency :: UrgencyLevel
  audioContext :: "AudioContext option"
  lastHourCheckRef :: int

text \<open>
  Every function returns, beside its result and the new state, the trace of what it did,
  in program order: the calls of the functions the specification speaks about, the state
  setters, the console output, the requests sent to the remote service and the start of
  an audio playback.
\<close>

datatype action =
    console_log jsstring
  | console_error jsstring
  | setUrgency UrgencyLevel
  | setCurrentMessage jsstring
  | setShowPopup bool
  | setIsSoundEnabled bool
  | setSafetyImageUrl "jsstring option"
  | setIsImageLoading bool
  | setAudioContext AudioContext
  | call_triggerReminder bool
  | call_generateReminderText UrgencyLevel int int
  | call_generateSpeech jsstring
  | call_generateSafetyImage UrgencyLevel
  | request_generateContent jsstring jsstring
  | source_start AudioBuffer

subsection \<open>services/geminiService.ts\<close>

text \<open>JavaScript's falsy test on an optional string: \<^verbatim>\<open>undefined\<close> and the empty string.\<close>

definition falsy :: "jsstring option \<Rightarrow> bool" where
  "falsy s \<longleftrightarrow> s = None \<or> s = Some []"

definition getGenAI :: "Env \<Rightarrow> App \<Rightarrow> (error + GoogleGenAI) \<times> App \<times> action list" where
  "getGenAI env st =
     (case genAI st of
        None \<Rightarrow>
          if falsy (API_KEY env)
          then (Inl (Error (ascii ''API Key not found'')), st,
                [console_error (ascii ''API_KEY is missing from environment variables.'')])
          else (let ai = GoogleGenAI (the (API_KEY env))
                in (Inr ai, st\<lparr>genAI := Some ai\<rparr>, []))
      | Some ai \<Rightarrow> (Inr ai, st, []))"

definition reminderPrompt :: "UrgencyLevel \<Rightarrow> int \<Rightarrow> int \<Rightarrow> jsstring" where
  "reminderPrompt level daysLeft hoursLeft =
     (case level of
        CRITICAL \<Rightarrow>
          ascii ''Create a VERY short, extremely urgent warning message (max 20 words) in Chinese.\<newline>      Context: The user MUST complete their Safety Management Course by November 30.\<newline>      Current Status: Only ''
          @ Number_toString hoursLeft
          @ ascii '' hours remaining!\<newline>      Tone: Alarming, commanding, authoritative. Use exclamation marks.''
      | HIGH \<Rightarrow>
          ascii ''Create a short, urgent reminder (max 25 words) in Chinese.\<newline>      Context: Safety Management Course deadline is November 30.\<newline>      Current Status: Only ''
          @ Number_toString daysLeft
          @ ascii '' days left. Time is running out fast.\<newline>      Tone: Serious, pressing.''
      | MEDIUM \<Rightarrow>
          ascii ''Create a friendly but firm reminder (max 30 words) in Chinese.\<newline>      Context: Don't forget the Safety Management Course deadline on November 30.\<newline>      Current Status: ''
          @ Number_toString daysLeft
          @ ascii '' days remaining.\<newline>      Tone: Professional, encouraging action.''
      | LOW \<Rightarrow>
          ascii ''Create a polite reminder (max 30 words) in Chinese.\<newline>      Context: Plan to take the Safety Management Course before November 30.\<newline>      Current Status: Plenty of time (''
          @ Number_toString daysLeft
          @ ascii '' days), but good to start early.\<newline>      Tone: Informative, calm.'')"

text \<open>The two hardcoded messages of \<^verbatim>\<open>generateReminderText\<close>, as code units.\<close>

definition emptyTextFallback :: jsstring where
  "emptyTextFallback =
     [35831, 31435, 21363, 23436, 25104, 23433, 20840, 35838, 31243, 65281]"

definition errorTextFallback :: jsstring where
  "errorTextFallback =
     [35831, 27880, 24847, 65306, 23433, 20840, 35838, 31243, 38656, 35201, 22312,
      49, 49, 26376, 51, 48, 26085, 21069, 23436, 25104, 12290]"

definition textModel :: jsstring where
  "textModel = ascii ''gemini-2.5-flash''"

definition ttsModel :: jsstring where
  "ttsModel = ascii ''gemini-2.5-flash-preview-tts''"

definition imageModel :: jsstring where
  "imageModel = ascii ''gemini-2.5-flash-image''"

text \<open>
  The result of an \<^verbatim>\<open>async\<close> function is a promise: \<open>Inl\<close> is its rejection, \<open>Inr\<close>
  the value it resolves to. \<^verbatim>\<open>getGenAI()\<close> is called before the \<^verbatim>\<open>try\<close> block of
  each of the three functions, so what it throws rejects the promise.
\<close>

definition generateReminderText ::
  "Env \<Rightarrow> UrgencyLevel \<Rightarrow> int \<Rightarrow> int \<Rightarrow> App \<Rightarrow> (error + jsstring) \<times> App \<times> action list" where
  "generateReminderText env level daysLeft hoursLeft st =
     (case getGenAI env st of
        (Inl e, st1, tr1) \<Rightarrow>
          (Inl e, st1, call_generateReminderText level daysLeft hoursLeft # tr1)
      | (Inr ai, st1, tr1) \<Rightarrow>
          (let prompt = reminderPrompt level daysLeft hoursLeft;
               tr2 = call_generateReminderText level daysLeft hoursLeft # tr1
                       @ [request_generateContent textModel prompt]
           in case generateContent env ai textModel prompt of
                Inr response \<Rightarrow>
                  (let t = map_option trim (response_text response)
                   in (Inr (if falsy t then emptyTextFallback else the t), st1, tr2))
              | Inl err \<Rightarrow>
                  (Inr errorTextFallback, st1,
                   tr2 @ [console_error (ascii ''Error generating text:'')])))"

text \<open>Indexing an optional array at 0 under \<^verbatim>\<open>?.[0]\<close>.\<close>

definition at0 :: "'a list option \<Rightarrow> 'a option" where
  "at0 xs = (case xs of None \<Rightarrow> None | Some [] \<Rightarrow> None | Some (x # _) \<Rightarrow> Some x)"

definition firstInlineData :: "GenerateContentResponse \<Rightarrow> jsstring option" where
  "firstInlineData response =
     Option.bind
       (Option.bind
          (at0 (Option.bind
                  (Option.bind (at0 (response_candidates response)) candidate_content)
                  content_parts))
          part_inlineData)
       blob_data"

definition generateSpeech ::
  "Env \<Rightarrow> jsstring \<Rightarrow> App \<Rightarrow> (error + AudioBuffer option) \<times> App \<times> action list" where
  "generateSpeech env txt st =
     (case getGenAI env st of
        (Inl e, st1, tr1) \<Rightarrow> (Inl e, st1, call_generateSpeech txt # tr1)
      | (Inr ai, st1, tr1) \<Rightarrow>
          (let tr2 = call_generateSpeech txt # tr1 @ [request_generateContent ttsModel txt]
           in case generateContent env ai ttsModel txt of
                Inr response \<Rightarrow>
                  (let base64Audio = firstInlineData response
                   in if falsy base64Audio then (Inr None, st1, tr2)
                      else (case decodeAudioData env (the base64Audio) of
                              Inr audioBuffer \<Rightarrow> (Inr (Some audioBuffer), st1, tr2)
                            | Inl err \<Rightarrow>
                                (Inr None, st1,
                                 tr2 @ [console_error (ascii ''Error generating speech:'')])))
              | Inl err \<Rightarrow>
                  (Inr None, st1,
                   tr2 @ [console_error (ascii ''Error generating speech:'')])))"

definition imagePrompt :: "UrgencyLevel \<Rightarrow> jsstring" where
  "imagePrompt level =
     (let basePrompt = ascii ''A high-quality, dramatic Japanese anime style illustration background (Makoto Shinkai style). Wide angle.'';
          specificDetails =
            (if level = CRITICAL \<or> level = HIGH
             then ascii ''The image depicts a futuristic industrial control room turning RED with warnings. A large digital clock in the background shows time running out. Atmosphere is tense, urgent, and shadowy. Red, orange and black color palette.''
             else ascii ''The image depicts a bright, hopeful industrial city of the future. A large calendar hologram shows 'Nov 30'. A safety worker in anime style looks at the horizon confidently. Blue, white, and cyan color palette. Clear skies.'')
      in basePrompt @ ascii '' '' @ specificDetails @ ascii '' --no text'')"

definition responseParts :: "GenerateContentResponse \<Rightarrow> Part list" where
  "responseParts response =
     (case Option.bind
             (Option.bind (at0 (response_candidates response)) candidate_content)
             content_parts of
        None \<Rightarrow> []
      | Some ps \<Rightarrow> ps)"

definition generateSafetyImage ::
  "Env \<Rightarrow> UrgencyLevel \<Rightarrow> App \<Rightarrow> (error + SafetyImageResponse) \<times> App \<times> action list" where
  "generateSafetyImage env level st =
     (case getGenAI env st of
        (Inl e, st1, tr1) \<Rightarrow> (Inl e, st1, call_generateSafetyImage level # tr1)
      | (Inr ai, st1, tr1) \<Rightarrow>
          (let prompt = imagePrompt level;
               tr2 = call_generateSafetyImage level # tr1
                       @ [request_generateContent imageModel prompt]
           in case generateContent env ai imageModel prompt of
                Inr response \<Rightarrow>
                  (case List.find (\<lambda>p. part_inlineData p \<noteq> None) (responseParts response) of
                     Some part \<Rightarrow>
                       (Inr \<lparr>imageUrl =
                               Some (ascii ''data:image/png;base64,''
                                     @ (case blob_data (the (part_inlineData part)) of
                                          Some d \<Rightarrow> d
                                        | None \<Rightarrow> ascii ''undefined'')),
                             description = ascii ''Generated Anime Style Safety Image''\<rparr>,
                        st1, tr2)
                   | None \<Rightarrow>
                       (Inr \<lparr>imageUrl = None, description = ascii ''Failed to generate''\<rparr>,
                        st1, tr2))
              | Inl err \<Rightarrow>
                  (Inr \<lparr>imageUrl = None, description = ascii ''Error''\<rparr>, st1,
                   tr2 @ [console_error (ascii ''Error generating image:'')])))"

subsection \<open>The component App\<close>

text \<open>
  \<^verbatim>\<open>calculateUrgency\<close>. \<open>now\<close> is the clock read by \<^verbatim>\<open>new Date()\<close>; the result is the
  object \<^verbatim>\<open>{ level, diffDays, diffHours }\<close>. The two quotients are IEEE doubles in the
  program; the difference of two time values is an integer below \<open>2^53\<close>, for which
  \<^verbatim>\<open>Math.ceil\<close> of the rounded quotient is the ceiling of the exact one, so the model
  divides in the reals.
\<close>

definition calculateUrgency ::
  "int \<Rightarrow> App \<Rightarrow> (UrgencyLevel \<times> int \<times> int) \<times> App \<times> action list" where
  "calculateUrgency now st =
     (let diffTime = \<bar>DEADLINE st - now\<bar>;
          diffDays = \<lceil>real_of_int diffTime / (1000 * 60 * 60 * 24)\<rceil>;
          diffHours = \<lceil>real_of_int diffTime / (1000 * 60 * 60)\<rceil>;
          level = (if diffDays \<le> 2 then CRITICAL
                   else if diffDays \<le> 7 then HIGH
                   else if diffDays \<le> 14 then MEDIUM
                   else LOW)
      in ((level, diffDays, diffHours), st\<lparr>urgency := level\<rparr>, [setUrgency level]))"

text \<open>
  \<^verbatim>\<open>triggerReminder\<close>. \<^verbatim>\<open>isSoundEnabled\<close> is the value the callback closed over, the one
  of the state in which the episode starts. What the playback statements throw rejects the
  promise of the episode, and no playback is started then.
\<close>

definition triggerReminder ::
  "Env \<Rightarrow> bool \<Rightarrow> int \<Rightarrow> App \<Rightarrow> (error + unit) \<times> App \<times> action list" where
  "triggerReminder env manual now st =
     (let tr0 = call_triggerReminder manual
                  # (if \<not> manual then [console_log (ascii ''Auto-triggering reminder...'')]
                     else [])
      in case calculateUrgency now st of
           ((level, diffDays, diffHours), st1, tr1) \<Rightarrow>
             (case generateReminderText env level diffDays diffHours st1 of
                (Inl e, st2, tr2) \<Rightarrow> (Inl e, st2, tr0 @ tr1 @ tr2)
              | (Inr txt, st2, tr2) \<Rightarrow>
                  (let st3 = st2\<lparr>currentMessage := txt, showPopup := True\<rparr>;
                       tr3 = tr0 @ tr1 @ tr2 @ [setCurrentMessage txt, setShowPopup True]
                   in if isSoundEnabled st
                      then (case generateSpeech env txt st3 of
                              (Inl e, st4, tr4) \<Rightarrow> (Inl e, st4, tr3 @ tr4)
                            | (Inr None, st4, tr4) \<Rightarrow> (Inr (), st4, tr3 @ tr4)
                            | (Inr (Some buffer), st4, tr4) \<Rightarrow>
                                (case startPlayback env buffer of
                                   Inl e \<Rightarrow> (Inl e, st4, tr3 @ tr4)
                                 | Inr u \<Rightarrow>
                                     (Inr (), st4, tr3 @ tr4 @ [source_start buffer])))
                      else (Inr (), st3, tr3))))"

definition initAudio :: "App \<Rightarrow> App \<times> action list" where
  "initAudio st =
     (if audioContext st = None
      then (let ctx = AudioContext 24000
            in (st\<lparr>audioContext := Some ctx\<rparr>, [setAudioContext ctx]))
      else (st, []))"

text \<open>The effect run once after the first render: the initial data load.\<close>

definition initialDataLoad :: "Env \<Rightarrow> int \<Rightarrow> App \<Rightarrow> App \<times> action list" where
  "initialDataLoad env now st =
     (case calculateUrgency now st of
        ((level, diffDays, diffHours), st1, tr1) \<Rightarrow>
          (let st2 = st1\<lparr>isImageLoading := True\<rparr>;
               tr2 = tr1 @ [setIsImageLoading True]
           in case generateSafetyImage env level st2 of
                (Inl e, st3, tr3) \<Rightarrow> (st3, tr2 @ tr3)
              | (Inr res, st3, tr3) \<Rightarrow>
                  (st3\<lparr>safetyImageUrl := imageUrl res, isImageLoading := False\<rparr>,
                   tr2 @ tr3 @ [setSafetyImageUrl (imageUrl res), setIsImageLoading False])))"


definition hourlyTimerCheck :: "Env \<Rightarrow> int \<Rightarrow> int \<Rightarrow> App \<Rightarrow> App \<times> action list" where
  "hourlyTimerCheck env now now' st =
     (let currentHour = getHours (LocalTZA env) now
      in if currentHour \<noteq> lastHourCheckRef st
         then (case triggerReminder env False now' (st\<lparr>lastHourCheckRef := currentHour\<rparr>) of
                 (r, st1, tr1) \<Rightarrow> (st1, tr1))
         else (st, []))"

text \<open>The click handlers: the test button, the sound toggle and the two ways to close the popup.\<close>

definition onTestReminder :: "Env \<Rightarrow> int \<Rightarrow> App \<Rightarrow> App \<times> action list" where
  "onTestReminder env now st =
     (case initAudio st of
        (st1, tr1) \<Rightarrow>
          (case triggerReminder env True now st1 of
             (r, st2, tr2) \<Rightarrow> (st2, tr1 @ tr2)))"

definition onToggleSound :: "App \<Rightarrow> App \<times> action list" where
  "onToggleSound st =
     (case initAudio st of
        (st1, tr1) \<Rightarrow>
          (st1\<lparr>isSoundEnabled := \<not> isSoundEnabled st\<rparr>,
           tr1 @ [setIsSoundEnabled (\<not> isSoundEnabled st)]))"

definition onDismiss :: "App \<Rightarrow> App \<times> action list" where
  "onDismiss st = (st\<lparr>showPopup := False\<rparr>, [setShowPopup False])"

text \<open>
  The page at startup: the module is evaluated (\<^verbatim>\<open>DEADLINE = getDeadline()\<close> at clock
  \<open>now\<close>, \<^verbatim>\<open>genAI = null\<close>) and the component is rendered for the first time (the ref
  reads the clock \<open>now'\<close>).
\<close>

definition startup :: "int \<Rightarrow> int \<Rightarrow> int \<Rightarrow> App" where
  "startup tza now now' =
     \<lparr>DEADLINE = getDeadline tza now,
      genAI = None,
      isSoundEnabled = True,
      showPopup = False,
      currentMessage = ascii ''Initializing Safety Protocols...'',
      safetyImageUrl = None,
      isImageLoading = False,
      urgency = LOW,
      audioContext = None,
      lastHourCheckRef = getHours tza now'\<rparr>"

text \<open>Everything that runs after startup, one event at a time, each in its own environment.\<close>

datatype event =
    InitialDataLoad int
  | TimerTick int int
  | TestReminderClick int
  | ToggleSoundClick
  | DismissClick

fun handle :: "Env \<Rightarrow> event \<Rightarrow> App \<Rightarrow> App \<times> action list" where
  "handle env (InitialDataLoad now) st = initialDataLoad env now st"
| "handle env (TimerTick now now') st = hourlyTimerCheck env now now' st"
| "handle env (TestReminderClick now) st = onTestReminder env now st"
| "handle env ToggleSoundClick st = onToggleSound st"
| "handle env DismissClick st = onDismiss st"

fun run :: "(Env \<times> event) list \<Rightarrow> App \<Rightarrow> App \<times> action list" where
  "run [] st = (st, [])"
| "run ((env, ev) # rest) st =
     (case handle env ev st of
        (st1, tr1) \<Rightarrow> (case run rest st1 of (st2, tr2) \<Rightarrow> (st2, tr1 @ tr2)))"

text \<open>The actions of the audio path: the speech request and the playback.\<close>

fun isAudioAction :: "action \<Rightarrow> bool" where
  "isAudioAction (call_generateSpeech t) = True"
| "isAudioAction (request_generateContent m c) = (m = ttsModel)"
| "isAudioAction (source_start b) = True"
| "isAudioAction a = False"

section \<open>Notions used to state the properties\<close>

text \<open>
  \<open>leap y\<close> is 1 in a leap year and 0 otherwise; \<open>nov30 y\<close> is the local time value of
  November 30, 23:59:59.000 of the year \<open>y\<close>.
\<close>

definition leap :: "int \<Rightarrow> int" where
  "leap y = (if DaysInYear y = 366 then 1 else 0)"

definition nov30 :: "int \<Rightarrow> int" where
  "nov30 y = MakeDate (MakeDay y 10 30) (MakeTime 23 59 59 0)"

text \<open>
  What the getters of a \<^verbatim>\<open>Date\<close> read from a time value in the local zone: year, month
  (0 is January), date, hours, minutes, seconds and milliseconds.
\<close>

definition localFields :: "int \<Rightarrow> int \<Rightarrow> int \<times> int \<times> int \<times> int \<times> int \<times> int \<times> int" where
  "localFields tza t =
     (getFullYear tza t, getMonth tza t, getDate tza t,
      getHours tza t, getMinutes tza t, getSeconds tza t, getMilliseconds tza t)"

text \<open>
  The tier thresholds in the words of the specification: evaluated in order, first match
  wins.
\<close>

definition tierOfDays :: "int \<Rightarrow> UrgencyLevel" where
  "tierOfDays d =
     (if d \<le> 2 then CRITICAL else if d \<le> 7 then HIGH else if d \<le> 14 then MEDIUM else LOW)"

text \<open>
  A page to compute with: the one started at 2024-10-27T03:33:20Z in a browser on UTC,
  whose deadline is 2024-11-30T23:59:59Z.
\<close>

definition pageOfOctober :: App where
  "pageOfOctober =
     \<lparr>DEADLINE = 1733011199000,
      genAI = None,
      isSoundEnabled = True,
      showPopup = False,
      currentMessage = ascii ''Initializing Safety Protocols...'',
      safetyImageUrl = None,
      isImageLoading = False,
      urgency = LOW,
      audioContext = None,
      lastHourCheckRef = 3\<rparr>"

text \<open>The state after a run of calls of \<^verbatim>\<open>calculateUrgency\<close>, one at each of the given clocks.\<close>

fun calculateUrgency_calls :: "int list \<Rightarrow> App \<Rightarrow> App" where
  "calculateUrgency_calls [] st = st"
| "calculateUrgency_calls (t # ts) st =
     calculateUrgency_calls ts (fst (snd (calculateUrgency t st)))"

text \<open>The error \<^verbatim>\<open>getGenAI\<close> throws without an API key, and what it logs before.\<close>

definition apiKeyError :: error where
  "apiKeyError = Error (ascii ''API Key not found'')"

definition apiKeyLog :: action where
  "apiKeyLog = console_error (ascii ''API_KEY is missing from environment variables.'')"

text \<open>The client \<^verbatim>\<open>getGenAI\<close> returns when it returns one.\<close>

definition clientOf :: "Env \<Rightarrow> App \<Rightarrow> GoogleGenAI" where
  "clientOf env st =
     (case genAI st of Some ai \<Rightarrow> ai | None \<Rightarrow> GoogleGenAI (the (API_KEY env)))"

text \<open>What \<^verbatim>\<open>generateReminderText\<close> resolves to, given the outcome of its request.\<close>

definition textOf :: "error + GenerateContentResponse \<Rightarrow> jsstring" where
  "textOf outcome =
     (case outcome of
        Inl err \<Rightarrow> errorTextFallback
      | Inr response \<Rightarrow>
          if falsy (map_option trim (response_text response)) then emptyTextFallback
          else trim (the (response_text response)))"

text \<open>
  The outcome and the trace of the playback statements of an episode, given what
  \<^verbatim>\<open>generateSpeech\<close> resolved to: nothing happens without a buffer.
\<close>

definition playbackOf :: "Env \<Rightarrow> AudioBuffer option \<Rightarrow> (error + unit) \<times> action list" where
  "playbackOf env bf =
     (case bf of
        None \<Rightarrow> (Inr (), [])
      | Some buffer \<Rightarrow>
          (case startPlayback env buffer of
             Inl e \<Rightarrow> (Inl e, [])
           | Inr u \<Rightarrow> (Inr (), [source_start buffer])))"

text \<open>
  The first actions of an episode, and the episode up to the point where
  \<^verbatim>\<open>await generateReminderText(...)\<close> returns: its outcome, the state and the trace so far.
\<close>

definition episodeStart :: "bool \<Rightarrow> action list" where
  "episodeStart manual =
     call_triggerReminder manual
       # (if \<not> manual then [console_log (ascii ''Auto-triggering reminder...'')] else [])"

definition textPhase ::
  "Env \<Rightarrow> bool \<Rightarrow> int \<Rightarrow> App \<Rightarrow> (error + jsstring) \<times> App \<times> action list" where
  "textPhase env manual now st =
     (case calculateUrgency now st of
        ((level, diffDays, diffHours), st1, tr1) \<Rightarrow>
          (case generateReminderText env level diffDays diffHours st1 of
             (r, st2, tr2) \<Rightarrow> (r, st2, episodeStart manual @ tr1 @ tr2)))"

text \<open>The request for the text that an episode sends, and its outcome.\<close>

definition textRequest :: "Env \<Rightarrow> int \<Rightarrow> App \<Rightarrow> error + GenerateContentResponse" where
  "textRequest env now st =
     (case fst (calculateUrgency now st) of
        (level, diffDays, diffHours) \<Rightarrow>
          generateContent env (clientOf env st) textModel
            (reminderPrompt level diffDays diffHours))"

text \<open>
  The start of an episode in a trace, and the two setters that reveal an episode to the
  user interface.
\<close>

fun isEpisodeStart :: "action \<Rightarrow> bool" where
  "isEpisodeStart (call_triggerReminder m) = True"
| "isEpisodeStart a = False"

fun isReveal :: "action \<Rightarrow> bool" where
  "isReveal (setCurrentMessage m) = True"
| "isReveal (setShowPopup b) = True"
| "isReveal a = False"


text \<open>Environments to compute with.\<close>

definition envNoKey :: Env where
  "envNoKey =
     \<lparr>LocalTZA = 0,
      API_KEY = None,
      generateContent =
        (\<lambda>ai m c. Inr \<lparr>response_text = Some (ascii ''ok''), response_candidates = None\<rparr>),
      decodeAudioData = (\<lambda>b. Inr (AudioBuffer 0)),
      startPlayback = (\<lambda>b. Inr ())\<rparr>"

definition envOffline :: Env where
  "envOffline =
     \<lparr>LocalTZA = 0,
      API_KEY = Some (ascii ''key''),
      generateContent = (\<lambda>ai m c. Inl (Error (ascii ''fetch failed''))),
      decodeAudioData = (\<lambda>b. Inl (Error (ascii ''bad audio''))),
      startPlayback = (\<lambda>b. Inr ())\<rparr>"

definition envBlank :: Env where
  "envBlank =
     \<lparr>LocalTZA = 0,
      API_KEY = Some (ascii ''key''),
      generateContent =
        (\<lambda>ai m c.
           Inr \<lparr>response_text = Some (ascii ''  ''),
                response_candidates =
                  Some [Candidate (Some (Content (Some [Part (Some (Blob (Some (ascii ''UklG''))))])))]\<rparr>),
      decodeAudioData = (\<lambda>b. Inr (AudioBuffer 0)),
      startPlayback = (\<lambda>b. Inr ())\<rparr>"



section \<open>Properties of the calendar\<close>

lemma year_down_le: "DayFromYear (year_down y d) \<le> d"
proof (induction y d rule: year_down.induct)
  case (1 y d)
  show ?case
  proof (cases "d < DayFromYear y")
    case True
    with 1 show ?thesis by (subst year_down.simps) simp
  next
    case False
    then show ?thesis by (subst year_down.simps) simp
  qed
qed

lemma year_up_bounds:
  "DayFromYear y \<le> d \<Longrightarrow>
     DayFromYear (year_up y d) \<le> d \<and> d < DayFromYear (year_up y d + 1)"
proof (induction y d rule: year_up.induct)
  case (1 y d)
  show ?case
  proof (cases "DayFromYear (y + 1) \<le> d")
    case True
    with 1 show ?thesis by (subst (1 2) year_up.simps) simp
  next
    case False
    with 1 show ?thesis by (subst (1 2) year_up.simps) simp
  qed
qed

lemma DayFromYear_mono: "y \<le> z \<Longrightarrow> DayFromYear y \<le> DayFromYear z"
proof (induction z rule: int_ge_induct)
  case base
  show ?case by simp
next
  case (step i)
  then show ?case using DayFromYear_less_next[of i] by simp
qed

lemma YearFromDay_bounds:
  "DayFromYear (YearFromDay d) \<le> d \<and> d < DayFromYear (YearFromDay d + 1)"
  unfolding YearFromDay_def by (rule year_up_bounds) (rule year_down_le)

lemma YearFromDay_unique:
  assumes "DayFromYear y \<le> d" and "d < DayFromYear (y + 1)"
  shows "YearFromDay d = y"
proof (rule ccontr)
  assume ne: "YearFromDay d \<noteq> y"
  let ?z = "YearFromDay d"
  have b: "DayFromYear ?z \<le> d" "d < DayFromYear (?z + 1)"
    using YearFromDay_bounds[of d] by simp_all
  show False
  proof (cases "?z < y")
    case True
    then have "DayFromYear (?z + 1) \<le> DayFromYear y" by (intro DayFromYear_mono) simp
    with b assms show False by simp
  next
    case False
    with ne have "y + 1 \<le> ?z" by simp
    then have "DayFromYear (y + 1) \<le> DayFromYear ?z" by (rule DayFromYear_mono)
    with b assms show False by simp
  qed
qed

lemma Day_MakeDate:
  "0 \<le> time \<Longrightarrow> time < msPerDay \<Longrightarrow> Day (MakeDate day time) = day"
  unfolding Day_def MakeDate_def msPerDay_def by simp

lemma TimeWithinDay_MakeDate:
  "0 \<le> time \<Longrightarrow> time < msPerDay \<Longrightarrow> TimeWithinDay (MakeDate day time) = time"
  unfolding TimeWithinDay_def MakeDate_def msPerDay_def by simp

lemma DaysInYear_leap: "DaysInYear y = 365 + leap y"
  using DaysInYear_cases[of y] by (auto simp: leap_def)

lemma MakeDay_nov30: "MakeDay y 10 30 = DayFromYear y + 333 + leap y"
  by (simp add: MakeDay_def DaysBeforeMonth_def leap_def Let_def)

lemma MakeTime_end: "MakeTime 23 59 59 0 = 86399000"
  by (simp add: MakeTime_def msPerHour_def msPerMinute_def msPerSecond_def)

lemma nov30_eq: "nov30 y = (DayFromYear y + 333 + leap y) * msPerDay + 86399000"
  by (simp add: nov30_def MakeDay_nov30 MakeTime_end MakeDate_def)

lemma Day_nov30: "Day (nov30 y) = DayFromYear y + 333 + leap y"
  unfolding nov30_def MakeDay_nov30[symmetric] MakeTime_end
  by (rule Day_MakeDate) (simp_all add: msPerDay_def)

lemma TimeWithinDay_nov30: "TimeWithinDay (nov30 y) = 86399000"
  unfolding nov30_def MakeTime_end
  by (rule TimeWithinDay_MakeDate) (simp_all add: msPerDay_def)

lemma leap_cases: "leap y = 0 \<or> leap y = 1"
  by (simp add: leap_def)

lemma YearFromTime_nov30: "YearFromTime (nov30 y) = y"
  unfolding YearFromTime_def Day_nov30
  by (rule YearFromDay_unique)
     (use leap_cases[of y] in \<open>auto simp: DayFromYear_next DaysInYear_leap\<close>)

lemma InLeapYear_nov30: "InLeapYear (nov30 y) = leap y"
  by (simp add: InLeapYear_def YearFromTime_nov30 leap_def)

lemma DayWithinYear_nov30: "DayWithinYear (nov30 y) = 333 + leap y"
  by (simp add: DayWithinYear_def YearFromTime_nov30 Day_nov30)

lemma MonthFromTime_nov30: "MonthFromTime (nov30 y) = 10"
  using leap_cases[of y]
  by (auto simp add: MonthFromTime_def DayWithinYear_nov30 InLeapYear_nov30 Let_def)

lemma DateFromTime_nov30: "DateFromTime (nov30 y) = 30"
  by (simp add: DateFromTime_def MonthFromTime_nov30 DayWithinYear_nov30 InLeapYear_nov30 Let_def)

lemma nov30_day_form:
  obtains d where "nov30 y = d * 86400000 + 86399000"
  using that[of "DayFromYear y + 333 + leap y"] nov30_eq[of y] by (simp add: msPerDay_def)

lemma mod_unit_rest:
  fixes k b r :: int
  assumes "0 \<le> r" "r < b"
  shows "(b * k + r) mod b = r"
  using assms by simp

lemma HourFromTime_nov30: "HourFromTime (nov30 y) = 23"
proof -
  obtain d where d: "nov30 y = d * 86400000 + 86399000" by (rule nov30_day_form)
  have e: "nov30 y div msPerHour = 24 * d + 23"
    by (simp add: d msPerHour_def)
  show ?thesis unfolding HourFromTime_def e by (rule mod_unit_rest) simp_all
qed

lemma MinFromTime_nov30: "MinFromTime (nov30 y) = 59"
proof -
  obtain d where d: "nov30 y = d * 86400000 + 86399000" by (rule nov30_day_form)
  have e: "nov30 y div msPerMinute = 60 * (24 * d + 23) + 59"
    by (simp add: d msPerMinute_def)
  show ?thesis unfolding MinFromTime_def e by (rule mod_unit_rest) simp_all
qed

lemma SecFromTime_nov30: "SecFromTime (nov30 y) = 59"
proof -
  obtain d where d: "nov30 y = d * 86400000 + 86399000" by (rule nov30_day_form)
  have e: "nov30 y div msPerSecond = 60 * (1440 * d + 1439) + 59"
    by (simp add: d msPerSecond_def)
  show ?thesis unfolding SecFromTime_def e by (rule mod_unit_rest) simp_all
qed

lemma msFromTime_nov30: "msFromTime (nov30 y) = 0"
proof -
  obtain d where d: "nov30 y = d * 86400000 + 86399000" by (rule nov30_day_form)
  have "nov30 y = (86400 * d + 86399) * 1000" by (simp add: d)
  then show ?thesis by (simp add: msFromTime_def msPerSecond_def)
qed

lemma Date_of_fields_nov30: "Date_of_fields tza y 10 30 23 59 59 = nov30 y - tza"
  by (simp add: Date_of_fields_def nov30_def UTC_def)

lemma setFullYear_nov30: "setFullYear tza (nov30 y - tza) z = nov30 z - tza"
proof -
  have l: "LocalTime tza (nov30 y - tza) = nov30 y" by (simp add: LocalTime_def)
  show ?thesis
    unfolding setFullYear_def Let_def l MonthFromTime_nov30 DateFromTime_nov30 TimeWithinDay_nov30
    by (simp add: UTC_def nov30_def MakeTime_end)
qed

lemma getDeadline_eq:
  "getDeadline tza now =
     (if now + tza > nov30 (getFullYear tza now) then nov30 (getFullYear tza now + 1) - tza
      else nov30 (getFullYear tza now) - tza)"
  by (auto simp add: getDeadline_def Date_of_fields_nov30 setFullYear_nov30 Let_def)

lemma Day_bounds: "Day t * msPerDay \<le> t \<and> t < (Day t + 1) * msPerDay"
proof -
  define q r where "q = t div msPerDay" and "r = t mod msPerDay"
  have "t = msPerDay * q + r" and "0 \<le> r" and "r < msPerDay"
    by (simp_all add: q_def r_def msPerDay_def)
  then show ?thesis
    unfolding Day_def q_def[symmetric] by (simp add: algebra_simps)
qed

lemma now_before_next_year:
  "t < DayFromYear (YearFromTime t + 1) * msPerDay"
proof -
  have "Day t < DayFromYear (YearFromTime t + 1)"
    using YearFromDay_bounds[of "Day t"] by (simp add: YearFromTime_def)
  then have "Day t + 1 \<le> DayFromYear (YearFromTime t + 1)" by simp
  then have "(Day t + 1) * msPerDay \<le> DayFromYear (YearFromTime t + 1) * msPerDay"
    by (simp add: msPerDay_def)
  with Day_bounds[of t] show ?thesis by simp
qed

lemma nov30_ge_year_start: "DayFromYear y * msPerDay \<le> nov30 y"
  using leap_cases[of y] by (auto simp: nov30_eq msPerDay_def)

lemma now_le_getDeadline: "now \<le> getDeadline tza now"
proof (cases "now + tza > nov30 (getFullYear tza now)")
  case True
  have "now + tza < DayFromYear (getFullYear tza now + 1) * msPerDay"
    using now_before_next_year[of "now + tza"] by (simp add: getFullYear_def LocalTime_def)
  also have "\<dots> \<le> nov30 (getFullYear tza now + 1)" by (rule nov30_ge_year_start)
  finally show ?thesis using True by (simp add: getDeadline_eq)
next
  case False
  then show ?thesis by (simp add: getDeadline_eq)
qed

lemma Day_split: "Day t = DayFromYear (YearFromTime t) + DayWithinYear t"
  by (simp add: DayWithinYear_def)

lemma InLeapYear_leap: "InLeapYear t = leap (YearFromTime t)"
  by (simp add: InLeapYear_def leap_def)

lemma DayWithinYear_dec1:
  assumes "MonthFromTime t = 11" "DateFromTime t = 1"
  shows "DayWithinYear t = 334 + InLeapYear t"
  using assms by (simp add: DateFromTime_def Let_def)

lemma DayWithinYear_nov1:
  assumes "MonthFromTime t = 10" "DateFromTime t = 1"
  shows "DayWithinYear t = 304 + InLeapYear t"
  using assms by (simp add: DateFromTime_def Let_def)

lemma dec1_after_nov30:
  assumes "YearFromTime t = y" "MonthFromTime t = 11" "DateFromTime t = 1"
  shows "nov30 y < t"
proof -
  have "Day t = DayFromYear y + 334 + leap y"
    using assms DayWithinYear_dec1[of t] by (simp add: Day_split[of t] InLeapYear_leap)
  then have "(DayFromYear y + 334 + leap y) * msPerDay \<le> t"
    using Day_bounds[of t] by simp
  moreover have "nov30 y < (DayFromYear y + 334 + leap y) * msPerDay"
    by (simp add: nov30_eq msPerDay_def)
  ultimately show ?thesis by simp
qed

lemma nov1_before_nov30:
  assumes "YearFromTime t = y" "MonthFromTime t = 10" "DateFromTime t = 1"
  shows "t < nov30 y"
proof -
  have "Day t = DayFromYear y + 304 + leap y"
    using assms DayWithinYear_nov1[of t] by (simp add: Day_split[of t] InLeapYear_leap)
  then have "t < (DayFromYear y + 305 + leap y) * msPerDay"
    using Day_bounds[of t] by (simp add: algebra_simps)
  moreover have "(DayFromYear y + 305 + leap y) * msPerDay \<le> nov30 y"
    by (simp add: nov30_eq msPerDay_def)
  ultimately show ?thesis by simp
qed

lemma localFields_nov30: "localFields tza (nov30 y - tza) = (y, 10, 30, 23, 59, 59, 0)"
  by (simp add: localFields_def getFullYear_def getMonth_def getDate_def getHours_def
      getMinutes_def getSeconds_def getMilliseconds_def LocalTime_def
      YearFromTime_nov30 MonthFromTime_nov30 DateFromTime_nov30 HourFromTime_nov30
      MinFromTime_nov30 SecFromTime_nov30 msFromTime_nov30)

lemma getDeadline_dec1:
  assumes "getFullYear tza now = y" "getMonth tza now = 11" "getDate tza now = 1"
  shows "getDeadline tza now = nov30 (y + 1) - tza"
  using dec1_after_nov30[of "now + tza" y] assms
  by (simp add: getDeadline_eq getFullYear_def getMonth_def getDate_def LocalTime_def)

lemma getDeadline_nov1:
  assumes "getFullYear tza now = y" "getMonth tza now = 10" "getDate tza now = 1"
  shows "getDeadline tza now = nov30 y - tza"
  using nov1_before_nov30[of "now + tza" y] assms
  by (simp add: getDeadline_eq getFullYear_def getMonth_def getDate_def LocalTime_def)


section \<open>The urgency classifier\<close>

lemma ceil_div_int:
  "\<lceil>real_of_int a / real_of_int k\<rceil> = - ((- a) div k)"
  by (rule ceiling_divide_eq_div)

lemma ceil_div_bounds:
  fixes a k :: int
  assumes k: "0 < k"
  shows "(- ((- a) div k) - 1) * k < a \<and> a \<le> - ((- a) div k) * k"
proof -
  define q r where "q = (- a) div k" and "r = (- a) mod k"
  have "- a = k * q + r" and "0 \<le> r" and "r < k"
    using k by (simp_all add: q_def r_def)
  then show ?thesis
    unfolding q_def[symmetric] by (simp add: algebra_simps)
qed

lemma calculateUrgency_int:
  "calculateUrgency now st =
     (let diffTime = \<bar>DEADLINE st - now\<bar>;
          diffDays = - ((- diffTime) div 86400000);
          diffHours = - ((- diffTime) div 3600000);
          level = tierOfDays diffDays
      in ((level, diffDays, diffHours), st\<lparr>urgency := level\<rparr>, [setUrgency level]))"
proof -
  have d: "\<lceil>real_of_int x / (1000 * 60 * 60 * 24)\<rceil> = - ((- x) div 86400000)" for x
    using ceil_div_int[of x 86400000] by simp
  have h: "\<lceil>real_of_int x / (1000 * 60 * 60)\<rceil> = - ((- x) div 3600000)" for x
    using ceil_div_int[of x 3600000] by simp
  show ?thesis
    unfolding calculateUrgency_def d h tierOfDays_def ..
qed

lemma pageOfOctober_startup: "pageOfOctober = startup 0 1730000000000 1730000000000"
  unfolding pageOfOctober_def startup_def by code_simp

text \<open>
  Claim C1. For every \<open>now\<close> and the fixed deadline, the classifier returns
  \<open>daysLeft\<close>, the ceiling of \<open>|deadline - now|\<close> in days, and \<open>hoursLeft\<close>, its ceiling
  in hours: each is the least number of whole days (hours) that covers the distance. The
  tier is CRITICAL when \<open>daysLeft \<le> 2\<close>, HIGH from 3 to 7, MEDIUM from 8 to 14 and LOW
  above 14, so the boundaries 2, 7 and 14 are inclusive.
\<close>

theorem classifier_figures_and_tier:
  "case fst (calculateUrgency now st) of
     (tier, daysLeft, hoursLeft) \<Rightarrow>
       daysLeft = \<lceil>real_of_int \<bar>DEADLINE st - now\<bar> / real_of_int msPerDay\<rceil> \<and>
       hoursLeft = \<lceil>real_of_int \<bar>DEADLINE st - now\<bar> / real_of_int msPerHour\<rceil> \<and>
       (daysLeft - 1) * msPerDay < \<bar>DEADLINE st - now\<bar> \<and>
       \<bar>DEADLINE st - now\<bar> \<le> daysLeft * msPerDay \<and>
       (hoursLeft - 1) * msPerHour < \<bar>DEADLINE st - now\<bar> \<and>
       \<bar>DEADLINE st - now\<bar> \<le> hoursLeft * msPerHour \<and>
       (daysLeft \<le> 2 \<longrightarrow> tier = CRITICAL) \<and>
       (3 \<le> daysLeft \<and> daysLeft \<le> 7 \<longrightarrow> tier = HIGH) \<and>
       (8 \<le> daysLeft \<and> daysLeft \<le> 14 \<longrightarrow> tier = MEDIUM) \<and>
       (14 < daysLeft \<longrightarrow> tier = LOW)"
proof -
  let ?a = "\<bar>DEADLINE st - now\<bar>"
  let ?d = "- ((- ?a) div 86400000)"
  let ?h = "- ((- ?a) div 3600000)"
  have d: "(?d - 1) * 86400000 < ?a \<and> ?a \<le> ?d * 86400000"
    by (rule ceil_div_bounds) simp
  have h: "(?h - 1) * 3600000 < ?a \<and> ?a \<le> ?h * 3600000"
    by (rule ceil_div_bounds) simp
  have r: "fst (calculateUrgency now st) = (tierOfDays ?d, ?d, ?h)"
    by (simp add: calculateUrgency_int Let_def)
  have cd: "\<lceil>real_of_int ?a / real_of_int msPerDay\<rceil> = ?d"
    unfolding msPerDay_def by (rule ceil_div_int)
  have ch: "\<lceil>real_of_int ?a / real_of_int msPerHour\<rceil> = ?h"
    unfolding msPerHour_def by (rule ceil_div_int)
  show ?thesis
    unfolding r prod.case cd ch
    using d h by (simp add: tierOfDays_def msPerDay_def msPerHour_def)
qed

theorem classifier_figures_and_tier_witness:
  "fst (calculateUrgency (1733011199000 - 2 * 86400000) pageOfOctober) = (CRITICAL, 2, 48)
   \<and> fst (calculateUrgency (1733011199000 - 2 * 86400000 - 1) pageOfOctober) = (HIGH, 3, 49)
   \<and> fst (calculateUrgency (1733011199000 - 7 * 86400000) pageOfOctober) = (HIGH, 7, 168)
   \<and> fst (calculateUrgency (1733011199000 - 7 * 86400000 - 1) pageOfOctober) = (MEDIUM, 8, 169)
   \<and> fst (calculateUrgency (1733011199000 - 14 * 86400000) pageOfOctober) = (MEDIUM, 14, 336)
   \<and> fst (calculateUrgency (1733011199000 - 14 * 86400000 - 1) pageOfOctober) = (LOW, 15, 337)"
  using classifier_figures_and_tier[where now = "1733011199000 - 2 * 86400000" and st = pageOfOctober]
    classifier_figures_and_tier[where now = "1733011199000 - 2 * 86400000 - 1" and st = pageOfOctober]
    classifier_figures_and_tier[where now = "1733011199000 - 7 * 86400000" and st = pageOfOctober]
    classifier_figures_and_tier[where now = "1733011199000 - 7 * 86400000 - 1" and st = pageOfOctober]
    classifier_figures_and_tier[where now = "1733011199000 - 14 * 86400000" and st = pageOfOctober]
    classifier_figures_and_tier[where now = "1733011199000 - 14 * 86400000 - 1" and st = pageOfOctober]
  by (simp add: calculateUrgency_int Let_def tierOfDays_def pageOfOctober_def)

section \<open>What each function leaves unchanged\<close>

lemma getGenAI_state:
  "fst (snd (getGenAI env st)) =
     st\<lparr>genAI := (case genAI st of
                     None \<Rightarrow> if falsy (API_KEY env) then None
                             else Some (GoogleGenAI (the (API_KEY env)))
                   | Some ai \<Rightarrow> Some ai)\<rparr>"
  by (simp add: getGenAI_def Let_def split: option.splits)

lemma generateReminderText_state:
  "fst (snd (generateReminderText env l d h st)) = fst (snd (getGenAI env st))"
  by (simp add: generateReminderText_def Let_def split: prod.splits sum.splits)

lemma generateSpeech_state:
  "fst (snd (generateSpeech env msg st)) = fst (snd (getGenAI env st))"
  by (simp add: generateSpeech_def Let_def split: prod.splits sum.splits)

lemma generateSafetyImage_state:
  "fst (snd (generateSafetyImage env l st)) = fst (snd (getGenAI env st))"
  by (simp add: generateSafetyImage_def Let_def split: prod.splits sum.splits option.splits)

lemma calculateUrgency_state:
  "fst (snd (calculateUrgency now st)) = st\<lparr>urgency := fst (fst (calculateUrgency now st))\<rparr>"
  by (simp add: calculateUrgency_def Let_def)

lemma calculateUrgency_trace:
  "snd (snd (calculateUrgency now st)) = [setUrgency (fst (fst (calculateUrgency now st)))]"
  by (simp add: calculateUrgency_def Let_def)

lemma getGenAI_DEADLINE: "getGenAI env st = (r, st', tr) \<Longrightarrow> DEADLINE st' = DEADLINE st"
  using getGenAI_state[of env st] by (cases "genAI st") (auto split: if_splits)

lemma generateReminderText_DEADLINE:
  "generateReminderText env l d h st = (r, st', tr) \<Longrightarrow> DEADLINE st' = DEADLINE st"
  using generateReminderText_state[of env l d h st] getGenAI_state[of env st] by simp

lemma generateSpeech_DEADLINE:
  "generateSpeech env msg st = (r, st', tr) \<Longrightarrow> DEADLINE st' = DEADLINE st"
  using generateSpeech_state[of env msg st] getGenAI_state[of env st] by simp

lemma generateSafetyImage_DEADLINE:
  "generateSafetyImage env l st = (r, st', tr) \<Longrightarrow> DEADLINE st' = DEADLINE st"
  using generateSafetyImage_state[of env l st] getGenAI_state[of env st] by simp

lemma calculateUrgency_DEADLINE:
  "calculateUrgency now st = (r, st', tr) \<Longrightarrow> DEADLINE st' = DEADLINE st"
  using calculateUrgency_state[of now st] by simp

lemma triggerReminder_DEADLINE:
  "triggerReminder env manual now st = (r, st', tr) \<Longrightarrow> DEADLINE st' = DEADLINE st"
  unfolding triggerReminder_def Let_def
  by (auto split: prod.splits sum.splits option.splits if_splits
      dest!: calculateUrgency_DEADLINE generateReminderText_DEADLINE generateSpeech_DEADLINE)

lemma initAudio_DEADLINE: "initAudio st = (st', tr) \<Longrightarrow> DEADLINE st' = DEADLINE st"
  by (auto simp: initAudio_def Let_def split: if_splits)

lemma handle_DEADLINE: "handle env ev st = (st', tr) \<Longrightarrow> DEADLINE st' = DEADLINE st"
proof (cases ev)
  case (InitialDataLoad now)
  then show "handle env ev st = (st', tr) \<Longrightarrow> DEADLINE st' = DEADLINE st"
    by (auto simp: initialDataLoad_def Let_def split: prod.splits sum.splits
        dest!: calculateUrgency_DEADLINE generateSafetyImage_DEADLINE)
next
  case (TimerTick now now')
  then show "handle env ev st = (st', tr) \<Longrightarrow> DEADLINE st' = DEADLINE st"
    by (auto simp: hourlyTimerCheck_def Let_def split: prod.splits if_splits
        dest!: triggerReminder_DEADLINE)
next
  case (TestReminderClick now)
  then show "handle env ev st = (st', tr) \<Longrightarrow> DEADLINE st' = DEADLINE st"
    by (auto simp: onTestReminder_def split: prod.splits
        dest!: triggerReminder_DEADLINE initAudio_DEADLINE)
next
  case ToggleSoundClick
  then show "handle env ev st = (st', tr) \<Longrightarrow> DEADLINE st' = DEADLINE st"
    by (auto simp: onToggleSound_def split: prod.splits dest!: initAudio_DEADLINE)
next
  case DismissClick
  then show "handle env ev st = (st', tr) \<Longrightarrow> DEADLINE st' = DEADLINE st"
    by (auto simp: onDismiss_def)
qed

lemma run_DEADLINE: "DEADLINE (fst (run evs st)) = DEADLINE st"
proof (induction evs arbitrary: st)
  case Nil
  show ?case by simp
next
  case (Cons a evs)
  obtain env ev where a: "a = (env, ev)" by (cases a)
  obtain st1 tr1 where h: "handle env ev st = (st1, tr1)" by (cases "handle env ev st")
  obtain st2 tr2 where r: "run evs st1 = (st2, tr2)" by (cases "run evs st1")
  have "DEADLINE st2 = DEADLINE st1" using Cons.IH[of st1] r by simp
  moreover have "DEADLINE st1 = DEADLINE st" using h by (rule handle_DEADLINE)
  ultimately show ?case by (simp add: a h r)
qed

section \<open>The deadline\<close>

lemma localFields_getDeadline:
  "localFields tza (getDeadline tza now) =
     (if now > Date_of_fields tza (getFullYear tza now) 10 30 23 59 59
      then getFullYear tza now + 1 else getFullYear tza now,
      10, 30, 23, 59, 59, 0)"
proof -
  have "now > nov30 (getFullYear tza now) - tza \<longleftrightarrow> now + tza > nov30 (getFullYear tza now)"
    by auto
  then show ?thesis
    by (simp add: getDeadline_eq Date_of_fields_nov30 localFields_nov30)
qed

text \<open>
  Claim C2. The deadline is November 30, 23:59:59 local time (month 10 of the 0-indexed
  months) of the year of the startup clock, or of the next year when the clock is past it:
  on a December 1 (month 11, date 1) of the year \<open>y\<close> it is in \<open>y + 1\<close>, on a November 1
  of \<open>y\<close> in \<open>y\<close>. \<^verbatim>\<open>DEADLINE\<close> holds this value from startup on, and no event of the page
  changes it.
\<close>

theorem deadline_is_nov30_and_stays:
  "localFields tza (getDeadline tza now) =
     (if now > Date_of_fields tza (getFullYear tza now) 10 30 23 59 59
      then getFullYear tza now + 1 else getFullYear tza now,
      10, 30, 23, 59, 59, 0)
   \<and> (getFullYear tza now = y \<and> getMonth tza now = 11 \<and> getDate tza now = 1 \<longrightarrow>
        localFields tza (getDeadline tza now) = (y + 1, 10, 30, 23, 59, 59, 0))
   \<and> (getFullYear tza now = y \<and> getMonth tza now = 10 \<and> getDate tza now = 1 \<longrightarrow>
        localFields tza (getDeadline tza now) = (y, 10, 30, 23, 59, 59, 0))
   \<and> DEADLINE (startup tza now now') = getDeadline tza now
   \<and> DEADLINE (fst (run evs (startup tza now now'))) = getDeadline tza now"
proof -
  have s: "DEADLINE (startup tza now now') = getDeadline tza now"
    by (simp add: startup_def)
  show ?thesis
    using getDeadline_dec1[of tza now y] getDeadline_nov1[of tza now y]
    by (simp add: localFields_getDeadline run_DEADLINE s localFields_nov30)
qed

theorem deadline_is_nov30_and_stays_witness:
  "getFullYear 0 1733011200000 = 2024 \<and> getMonth 0 1733011200000 = 11
   \<and> getDate 0 1733011200000 = 1
   \<and> localFields 0 (getDeadline 0 1733011200000) = (2025, 10, 30, 23, 59, 59, 0)
   \<and> getFullYear 0 1730419200000 = 2024 \<and> getMonth 0 1730419200000 = 10
   \<and> getDate 0 1730419200000 = 1
   \<and> localFields 0 (getDeadline 0 1730419200000) = (2024, 10, 30, 23, 59, 59, 0)"
proof -
  have d: "getFullYear 0 1733011200000 = 2024 \<and> getMonth 0 1733011200000 = 11
      \<and> getDate 0 1733011200000 = 1"
    by code_simp
  have n: "getFullYear 0 1730419200000 = 2024 \<and> getMonth 0 1730419200000 = 10
      \<and> getDate 0 1730419200000 = 1"
    by code_simp
  have d': "localFields 0 (getDeadline 0 1733011200000) = (2025, 10, 30, 23, 59, 59, 0)"
    using d deadline_is_nov30_and_stays[where tza = 0 and now = 1733011200000 and y = 2024
        and now' = 1733011200000 and evs = "[]", THEN conjunct2, THEN conjunct1]
    by simp
  have n': "localFields 0 (getDeadline 0 1730419200000) = (2024, 10, 30, 23, 59, 59, 0)"
    using n deadline_is_nov30_and_stays[where tza = 0 and now = 1730419200000 and y = 2024
        and now' = 1730419200000 and evs = "[]", THEN conjunct2, THEN conjunct2,
        THEN conjunct1]
    by simp
  show ?thesis using d n d' n' by blast
qed

text \<open>
  Claim C10. When \<^verbatim>\<open>getDeadline\<close> returns, the deadline is not earlier than the clock it
  read: if November 30, 23:59:59 of the current year is already past, the deadline is the
  one of the next year, which lies after every instant of the current year.
\<close>

theorem deadline_not_before_startup:
  "now \<le> getDeadline tza now
   \<and> now \<le> DEADLINE (startup tza now now')
   \<and> (now > Date_of_fields tza (getFullYear tza now) 10 30 23 59 59 \<longrightarrow>
        getDeadline tza now = Date_of_fields tza (getFullYear tza now + 1) 10 30 23 59 59)"
proof -
  have "now > nov30 (getFullYear tza now) - tza \<longleftrightarrow> now + tza > nov30 (getFullYear tza now)"
    by auto
  then show ?thesis
    using now_le_getDeadline[of now tza]
    by (simp add: startup_def getDeadline_eq Date_of_fields_nov30)
qed

theorem deadline_not_before_startup_witness:
  "(1733011200000::int) > Date_of_fields 0 (getFullYear 0 1733011200000) 10 30 23 59 59
   \<and> getDeadline 0 1733011200000 = 1764547199000
   \<and> (1733011200000::int) \<le> getDeadline 0 1733011200000"
proof -
  have a: "(1733011200000::int) > Date_of_fields 0 (getFullYear 0 1733011200000) 10 30 23 59 59"
    by code_simp
  have b: "Date_of_fields 0 (getFullYear 0 1733011200000 + 1) 10 30 23 59 59 = 1764547199000"
    by code_simp
  show ?thesis
    using a b deadline_not_before_startup[where now = 1733011200000 and tza = 0 and now' = 0]
    by simp
qed

section \<open>After the deadline\<close>

lemma ceil_div_le_iff:
  fixes a k n :: int
  assumes k: "0 < k"
  shows "- ((- a) div k) \<le> n \<longleftrightarrow> a \<le> n * k"
proof
  assume "- ((- a) div k) \<le> n"
  then have "- ((- a) div k) * k \<le> n * k"
    using k by (intro mult_right_mono) simp_all
  with ceil_div_bounds[OF k, of a] show "a \<le> n * k" by linarith
next
  assume le: "a \<le> n * k"
  have "(- ((- a) div k) - 1) * k < n * k"
    using ceil_div_bounds[OF k, of a] le by linarith
  then have "- ((- a) div k) - 1 < n"
    using k by (simp only: mult_less_cancel_right_pos)
  then show "- ((- a) div k) \<le> n" by simp
qed

text \<open>
  A deadline missed by three days is reported as HIGH, by ten days as MEDIUM and by
  thirty days as LOW.
\<close>

theorem missed_deadline_counterexample:
  "DEADLINE pageOfOctober < 1733011199000 + 3 * 86400000
   \<and> fst (calculateUrgency (1733011199000 + 3 * 86400000) pageOfOctober) = (HIGH, 3, 72)
   \<and> fst (calculateUrgency (1733011199000 + 10 * 86400000) pageOfOctober) = (MEDIUM, 10, 240)
   \<and> fst (calculateUrgency (1733011199000 + 30 * 86400000) pageOfOctober) = (LOW, 30, 720)"
  by (simp add: calculateUrgency_int Let_def tierOfDays_def pageOfOctober_def)

text \<open>
  Claim C5, as amended. For every \<open>now\<close> later than the deadline the classifier computes
  the figures from the time elapsed since the deadline, \<open>now - deadline\<close>, as if it were
  time left, and there is no overdue state. The missed deadline is reported as CRITICAL
  for the first two days after it only: from then to seven days it is HIGH, to fourteen
  days MEDIUM, and later LOW.
\<close>

theorem missed_deadline_tier_by_elapsed_time:
  assumes "DEADLINE st < now"
  shows "case fst (calculateUrgency now st) of
     (tier, daysLeft, hoursLeft) \<Rightarrow>
       daysLeft = \<lceil>real_of_int (now - DEADLINE st) / real_of_int msPerDay\<rceil> \<and>
       hoursLeft = \<lceil>real_of_int (now - DEADLINE st) / real_of_int msPerHour\<rceil> \<and>
       1 \<le> daysLeft \<and> 1 \<le> hoursLeft \<and>
       (tier = CRITICAL \<longleftrightarrow> now - DEADLINE st \<le> 2 * msPerDay) \<and>
       (tier = HIGH \<longleftrightarrow> 2 * msPerDay < now - DEADLINE st \<and> now - DEADLINE st \<le> 7 * msPerDay) \<and>
       (tier = MEDIUM \<longleftrightarrow> 7 * msPerDay < now - DEADLINE st \<and> now - DEADLINE st \<le> 14 * msPerDay) \<and>
       (tier = LOW \<longleftrightarrow> 14 * msPerDay < now - DEADLINE st)"
proof -
  let ?a = "now - DEADLINE st"
  let ?d = "- ((- ?a) div 86400000)"
  let ?h = "- ((- ?a) div 3600000)"
  have a: "\<bar>DEADLINE st - now\<bar> = ?a" using assms by simp
  have r: "fst (calculateUrgency now st) = (tierOfDays ?d, ?d, ?h)"
    by (simp add: calculateUrgency_int Let_def a)
  have cd: "\<lceil>real_of_int ?a / real_of_int msPerDay\<rceil> = ?d"
    unfolding msPerDay_def by (rule ceil_div_int)
  have ch: "\<lceil>real_of_int ?a / real_of_int msPerHour\<rceil> = ?h"
    unfolding msPerHour_def by (rule ceil_div_int)
  have le: "?d \<le> n \<longleftrightarrow> ?a \<le> n * 86400000" for n
    by (rule ceil_div_le_iff) simp
  have d1: "1 \<le> ?d" using le[of 0] assms by simp
  have "?h \<le> 0 \<longleftrightarrow> ?a \<le> 0 * 3600000"
    by (rule ceil_div_le_iff) simp
  then have h1: "1 \<le> ?h" using assms by simp
  have t: "(tierOfDays ?d = CRITICAL \<longleftrightarrow> ?a \<le> 2 * 86400000)
      \<and> (tierOfDays ?d = HIGH \<longleftrightarrow> 2 * 86400000 < ?a \<and> ?a \<le> 7 * 86400000)
      \<and> (tierOfDays ?d = MEDIUM \<longleftrightarrow> 7 * 86400000 < ?a \<and> ?a \<le> 14 * 86400000)
      \<and> (tierOfDays ?d = LOW \<longleftrightarrow> 14 * 86400000 < ?a)"
    using le[of 2] le[of 7] le[of 14] unfolding tierOfDays_def by auto
  show ?thesis
    unfolding r prod.case cd ch
    using d1 h1 t by (simp add: msPerDay_def)
qed

theorem missed_deadline_tier_by_elapsed_time_witness:
  "DEADLINE pageOfOctober < 1733011199000 + 2 * 86400000
   \<and> fst (calculateUrgency (1733011199000 + 2 * 86400000) pageOfOctober) = (CRITICAL, 2, 48)
   \<and> DEADLINE pageOfOctober < 1733011199000 + 2 * 86400000 + 1
   \<and> fst (fst (calculateUrgency (1733011199000 + 2 * 86400000 + 1) pageOfOctober)) = HIGH"
proof -
  have a: "DEADLINE pageOfOctober < 1733011199000 + 2 * 86400000"
    and b: "DEADLINE pageOfOctober < 1733011199000 + 2 * 86400000 + 1"
    by (simp_all add: pageOfOctober_def)
  show ?thesis
    using a b missed_deadline_tier_by_elapsed_time[OF a] missed_deadline_tier_by_elapsed_time[OF b]
    by (simp add: calculateUrgency_int Let_def tierOfDays_def pageOfOctober_def)
qed

section \<open>The classifier and the state\<close>

lemma calculateUrgency_calls_DEADLINE: "DEADLINE (calculateUrgency_calls ts st) = DEADLINE st"
  by (induction ts arbitrary: st) (simp_all add: calculateUrgency_state)

lemma calculateUrgency_result_DEADLINE:
  "DEADLINE st' = DEADLINE st \<Longrightarrow> fst (calculateUrgency now st') = fst (calculateUrgency now st)"
  by (simp add: calculateUrgency_def Let_def)

text \<open>
  A call of the classifier changes the state: on a page whose \<^verbatim>\<open>urgency\<close> is LOW, a call
  at the deadline leaves it CRITICAL.
\<close>

theorem classifier_side_effect_counterexample:
  "fst (snd (calculateUrgency 1733011199000 pageOfOctober)) \<noteq> pageOfOctober
   \<and> urgency pageOfOctober = LOW
   \<and> urgency (fst (snd (calculateUrgency 1733011199000 pageOfOctober))) = CRITICAL
   \<and> snd (snd (calculateUrgency 1733011199000 pageOfOctober)) = [setUrgency CRITICAL]"
proof -
  have u: "urgency (fst (snd (calculateUrgency 1733011199000 pageOfOctober))) = CRITICAL"
    by (simp add: calculateUrgency_int Let_def tierOfDays_def pageOfOctober_def)
  have l: "urgency pageOfOctober = LOW" by (simp add: pageOfOctober_def)
  have t: "snd (snd (calculateUrgency 1733011199000 pageOfOctober)) = [setUrgency CRITICAL]"
    by (simp add: calculateUrgency_int Let_def tierOfDays_def pageOfOctober_def)
  have "fst (snd (calculateUrgency 1733011199000 pageOfOctober)) \<noteq> pageOfOctober"
  proof
    assume "fst (snd (calculateUrgency 1733011199000 pageOfOctober)) = pageOfOctober"
    with u l show False by simp
  qed
  with u l t show ?thesis by simp
qed

text \<open>
  Claim C6, as amended. The result of the classifier (tier, daysLeft, hoursLeft) is a
  function of \<open>now\<close> and the deadline alone: it does not depend on the rest of the state,
  and two calls with the same \<open>now\<close> give the same result whatever calls are made in
  between. The classifier is not free of side effects: each call stores the tier it
  computed in the state variable \<^verbatim>\<open>urgency\<close>, and changes nothing else.
\<close>

theorem classifier_result_deterministic:
  "fst (calculateUrgency now (calculateUrgency_calls ts st)) = fst (calculateUrgency now st)
   \<and> (DEADLINE st' = DEADLINE st \<longrightarrow>
        fst (calculateUrgency now st') = fst (calculateUrgency now st))
   \<and> fst (snd (calculateUrgency now st)) = st\<lparr>urgency := fst (fst (calculateUrgency now st))\<rparr>
   \<and> snd (snd (calculateUrgency now st)) = [setUrgency (fst (fst (calculateUrgency now st)))]"
  using calculateUrgency_result_DEADLINE[of st' st now]
    calculateUrgency_result_DEADLINE[OF calculateUrgency_calls_DEADLINE[of ts st], of now]
    calculateUrgency_state[of now st] calculateUrgency_trace[of now st]
  by simp

theorem classifier_result_deterministic_witness:
  "DEADLINE (pageOfOctober\<lparr>showPopup := True, urgency := HIGH\<rparr>) = DEADLINE pageOfOctober
   \<and> fst (calculateUrgency 1733000000000 (pageOfOctober\<lparr>showPopup := True, urgency := HIGH\<rparr>))
       = fst (calculateUrgency 1733000000000 pageOfOctober)
   \<and> fst (calculateUrgency 1733000000000
            (calculateUrgency_calls [1730000000000, 1732000000000] pageOfOctober))
       = (CRITICAL, 1, 4)
   \<and> fst (calculateUrgency 1733000000000 pageOfOctober) = (CRITICAL, 1, 4)"
proof -
  have d: "DEADLINE (pageOfOctober\<lparr>showPopup := True, urgency := HIGH\<rparr>) = DEADLINE pageOfOctober"
    by simp
  have v: "fst (calculateUrgency 1733000000000 pageOfOctober) = (CRITICAL, 1, 4)"
    by (simp add: calculateUrgency_int Let_def tierOfDays_def pageOfOctober_def)
  show ?thesis
    using d v
      classifier_result_deterministic[where now = 1733000000000 and st = pageOfOctober
        and st' = "pageOfOctober\<lparr>showPopup := True, urgency := HIGH\<rparr>"
        and ts = "[1730000000000, 1732000000000]"]
    by simp
qed

section \<open>The provider client\<close>

lemma getGenAI_missing:
  assumes "genAI st = None" "falsy (API_KEY env)"
  shows "getGenAI env st = (Inl apiKeyError, st, [apiKeyLog])"
  using assms by (simp add: getGenAI_def apiKeyError_def apiKeyLog_def)

lemma getGenAI_available:
  assumes "genAI st \<noteq> None \<or> \<not> falsy (API_KEY env)"
  shows "getGenAI env st = (Inr (clientOf env st), st\<lparr>genAI := Some (clientOf env st)\<rparr>, [])"
  using assms by (cases "genAI st") (auto simp: getGenAI_def clientOf_def Let_def)

lemma models_distinct: "textModel \<noteq> ttsModel" "imageModel \<noteq> ttsModel"
  by (simp_all add: textModel_def ttsModel_def imageModel_def ascii_def)

lemma generateReminderText_missing:
  assumes "genAI st = None" "falsy (API_KEY env)"
  shows "generateReminderText env l d h st =
           (Inl apiKeyError, st, [call_generateReminderText l d h, apiKeyLog])"
  by (simp add: generateReminderText_def getGenAI_missing[OF assms])

lemma generateSpeech_missing:
  assumes "genAI st = None" "falsy (API_KEY env)"
  shows "generateSpeech env msg st = (Inl apiKeyError, st, [call_generateSpeech msg, apiKeyLog])"
  by (simp add: generateSpeech_def getGenAI_missing[OF assms])

lemma generateSafetyImage_missing:
  assumes "genAI st = None" "falsy (API_KEY env)"
  shows "generateSafetyImage env l st =
           (Inl apiKeyError, st, [call_generateSafetyImage l, apiKeyLog])"
  by (simp add: generateSafetyImage_def getGenAI_missing[OF assms])

lemma textOf_nonempty: "textOf outcome \<noteq> []"
  by (cases outcome)
     (auto simp: textOf_def falsy_def errorTextFallback_def emptyTextFallback_def
       split: option.splits)

lemma generateReminderText_available:
  assumes "genAI st \<noteq> None \<or> \<not> falsy (API_KEY env)"
  shows "generateReminderText env l d h st =
           (Inr (textOf (generateContent env (clientOf env st) textModel (reminderPrompt l d h))),
            st\<lparr>genAI := Some (clientOf env st)\<rparr>,
            [call_generateReminderText l d h,
             request_generateContent textModel (reminderPrompt l d h)]
            @ (case generateContent env (clientOf env st) textModel (reminderPrompt l d h) of
                 Inl err \<Rightarrow> [console_error (ascii ''Error generating text:'')]
               | Inr response \<Rightarrow> []))"
  by (cases "generateContent env (clientOf env st) textModel (reminderPrompt l d h)")
     (auto simp: generateReminderText_def getGenAI_available[OF assms] Let_def textOf_def
       falsy_def split: option.splits)

lemma generateSpeech_resolves:
  assumes "genAI st \<noteq> None"
  shows "\<exists>b tr. generateSpeech env msg st = (Inr b, st, call_generateSpeech msg # tr)"
proof -
  obtain ai where ai: "genAI st = Some ai" using assms by auto
  have g: "getGenAI env st = (Inr ai, st, [])" by (simp add: getGenAI_def ai)
  show ?thesis
    by (auto simp: generateSpeech_def g Let_def split: sum.splits)
qed

lemma generateSpeech_trace_audio:
  "generateSpeech env msg st = (r, st', tr) \<Longrightarrow> \<exists>rest. tr = call_generateSpeech msg # rest"
  by (auto simp: generateSpeech_def Let_def split: prod.splits sum.splits if_splits)

section \<open>The reminder episode\<close>

lemma playbackOf_traces:
  "filter isReveal (snd (playbackOf env bf)) = []"
  "filter isEpisodeStart (snd (playbackOf env bf)) = []"
  by (simp_all add: playbackOf_def split: option.splits sum.splits)

lemma playbackOf_outcome:
  "fst (playbackOf env bf) = Inr ()
   \<or> (\<exists>buffer e. bf = Some buffer \<and> startPlayback env buffer = Inl e
         \<and> fst (playbackOf env bf) = Inl e)"
  by (simp add: playbackOf_def split: option.splits sum.splits)

lemma triggerReminder_by_phase:
  "triggerReminder env manual now st =
     (case textPhase env manual now st of
        (Inl e, st2, tr2) \<Rightarrow> (Inl e, st2, tr2)
      | (Inr msg, st2, tr2) \<Rightarrow>
          (let st3 = st2\<lparr>currentMessage := msg, showPopup := True\<rparr>;
               tr3 = tr2 @ [setCurrentMessage msg, setShowPopup True]
           in if isSoundEnabled st
              then (case generateSpeech env msg st3 of
                      (Inl e, st4, tr4) \<Rightarrow> (Inl e, st4, tr3 @ tr4)
                    | (Inr bf, st4, tr4) \<Rightarrow>
                        (fst (playbackOf env bf), st4, tr3 @ tr4 @ snd (playbackOf env bf)))
              else (Inr (), st3, tr3)))"
  by (simp add: triggerReminder_def textPhase_def episodeStart_def playbackOf_def Let_def
      split: prod.splits sum.splits option.splits)

lemma textPhase_missing:
  assumes "genAI st = None" "falsy (API_KEY env)"
  shows "textPhase env manual now st =
     (case fst (calculateUrgency now st) of
        (l, d, h) \<Rightarrow>
          (Inl apiKeyError, st\<lparr>urgency := l\<rparr>,
           episodeStart manual @ [setUrgency l, call_generateReminderText l d h, apiKeyLog]))"
proof -
  obtain l d h where c: "fst (calculateUrgency now st) = (l, d, h)"
    by (cases "fst (calculateUrgency now st)")
  have f: "calculateUrgency now st = ((l, d, h), st\<lparr>urgency := l\<rparr>, [setUrgency l])"
    using c calculateUrgency_state[of now st] calculateUrgency_trace[of now st]
    by (cases "calculateUrgency now st") auto
  have g: "genAI (st\<lparr>urgency := l\<rparr>) = None" using assms by simp
  show ?thesis
    by (simp add: textPhase_def f c generateReminderText_missing[OF g assms(2)])
qed

lemma textPhase_available:
  assumes "genAI st \<noteq> None \<or> \<not> falsy (API_KEY env)"
  shows "textPhase env manual now st =
     (case fst (calculateUrgency now st) of
        (l, d, h) \<Rightarrow>
          (Inr (textOf (textRequest env now st)),
           st\<lparr>urgency := l, genAI := Some (clientOf env st)\<rparr>,
           episodeStart manual
           @ [setUrgency l, call_generateReminderText l d h,
              request_generateContent textModel (reminderPrompt l d h)]
           @ (case textRequest env now st of
                Inl err \<Rightarrow> [console_error (ascii ''Error generating text:'')]
              | Inr response \<Rightarrow> [])))"
proof -
  obtain l d h where c: "fst (calculateUrgency now st) = (l, d, h)"
    by (cases "fst (calculateUrgency now st)")
  have f: "calculateUrgency now st = ((l, d, h), st\<lparr>urgency := l\<rparr>, [setUrgency l])"
    using c calculateUrgency_state[of now st] calculateUrgency_trace[of now st]
    by (cases "calculateUrgency now st") auto
  have g: "genAI (st\<lparr>urgency := l\<rparr>) \<noteq> None \<or> \<not> falsy (API_KEY env)" using assms by simp
  have k: "clientOf env (st\<lparr>urgency := l\<rparr>) = clientOf env st" by (simp add: clientOf_def)
  show ?thesis
    by (simp add: textPhase_def f c generateReminderText_available[OF g] k textRequest_def)
qed

lemma textPhase_no_audio: "filter isAudioAction (snd (snd (textPhase env manual now st))) = []"
proof (cases "genAI st = None \<and> falsy (API_KEY env)")
  case True
  then show ?thesis
    by (simp add: textPhase_missing episodeStart_def apiKeyLog_def split: prod.splits)
next
  case False
  then have "genAI st \<noteq> None \<or> \<not> falsy (API_KEY env)" by auto
  then show ?thesis
    by (simp add: textPhase_available episodeStart_def models_distinct
        split: prod.splits sum.splits)
qed

lemma textPhase_no_reveal: "filter isReveal (snd (snd (textPhase env manual now st))) = []"
proof (cases "genAI st = None \<and> falsy (API_KEY env)")
  case True
  then show ?thesis
    by (simp add: textPhase_missing episodeStart_def apiKeyLog_def split: prod.splits)
next
  case False
  then have "genAI st \<noteq> None \<or> \<not> falsy (API_KEY env)" by auto
  then show ?thesis
    by (simp add: textPhase_available episodeStart_def split: prod.splits sum.splits)
qed







lemma generateSpeech_no_reveal:
  "filter isReveal (snd (snd (generateSpeech env msg st))) = []"
  by (auto simp: generateSpeech_def getGenAI_def Let_def
      split: prod.splits sum.splits option.splits if_splits)

lemma generateSpeech_with_client:
  assumes "genAI st \<noteq> None"
  obtains b rest where "generateSpeech env msg st = (Inr b, st, call_generateSpeech msg # rest)"
  using generateSpeech_resolves[OF assms, of env msg] by blast

section \<open>A missing API key\<close>

lemma triggerReminder_missing:
  assumes "genAI st = None" "falsy (API_KEY env)"
  shows "fst (triggerReminder env manual now st) = Inl apiKeyError
     \<and> fst (snd (triggerReminder env manual now st))
         = st\<lparr>urgency := fst (fst (calculateUrgency now st))\<rparr>
     \<and> filter isReveal (snd (snd (triggerReminder env manual now st))) = []"
  by (simp add: triggerReminder_by_phase textPhase_missing[OF assms] episodeStart_def
      apiKeyLog_def split: prod.splits)

lemma initAudio_genAI: "genAI (fst (initAudio st)) = genAI st"
  by (simp add: initAudio_def Let_def)

lemma handle_genAI_missing:
  assumes "genAI st = None" "falsy (API_KEY env)"
  shows "genAI (fst (handle env ev st)) = None"
proof (cases ev)
  case (InitialDataLoad now)
  obtain l d h where c: "fst (calculateUrgency now st) = (l, d, h)"
    by (cases "fst (calculateUrgency now st)")
  have f: "calculateUrgency now st = ((l, d, h), st\<lparr>urgency := l\<rparr>, [setUrgency l])"
    using c calculateUrgency_state[of now st] calculateUrgency_trace[of now st]
    by (cases "calculateUrgency now st") auto
  have g: "genAI (st\<lparr>urgency := l, isImageLoading := True\<rparr>) = None" using assms by simp
  show ?thesis
    by (simp add: InitialDataLoad initialDataLoad_def f Let_def
        generateSafetyImage_missing[OF g assms(2)] assms(1))
next
  case (TimerTick now now')
  have g: "genAI (st\<lparr>lastHourCheckRef := getHours (LocalTZA env) now\<rparr>) = None"
    using assms by simp
  show ?thesis
    using triggerReminder_missing[OF g assms(2), of False now'] assms(1)
    by (auto simp: TimerTick hourlyTimerCheck_def Let_def split: prod.splits)
next
  case (TestReminderClick now)
  have g: "genAI (fst (initAudio st)) = None" using assms by (simp add: initAudio_genAI)
  show ?thesis
    using triggerReminder_missing[OF g assms(2), of True now] g
    by (auto simp: TestReminderClick onTestReminder_def split: prod.splits)
next
  case ToggleSoundClick
  show ?thesis
    using initAudio_genAI[of st] assms(1)
    by (auto simp: ToggleSoundClick onToggleSound_def split: prod.splits)
next
  case DismissClick
  show ?thesis using assms(1) by (simp add: DismissClick onDismiss_def)
qed

lemma run_genAI_missing:
  assumes "genAI st = None" "list_all (\<lambda>(env, ev). falsy (API_KEY env)) evs"
  shows "genAI (fst (run evs st)) = None"
  using assms
proof (induction evs arbitrary: st)
  case Nil
  then show ?case by simp
next
  case (Cons a evs)
  obtain env ev where a: "a = (env, ev)" by (cases a)
  obtain st1 tr1 where h: "handle env ev st = (st1, tr1)" by (cases "handle env ev st")
  obtain st2 tr2 where r: "run evs st1 = (st2, tr2)" by (cases "run evs st1")
  have k: "falsy (API_KEY env)" and ks: "list_all (\<lambda>(env, ev). falsy (API_KEY env)) evs"
    using Cons.prems(2) by (simp_all add: a)
  have "genAI st1 = None"
    using handle_genAI_missing[OF Cons.prems(1) k, of ev] h by simp
  then have "genAI (fst (run evs st1)) = None" using ks by (rule Cons.IH)
  then show ?case by (simp add: a h r)
qed

text \<open>
  Claim C8. When the API key is absent from the process configuration (undefined or
  empty) and no client has been created, each of the three calls of the content provider
  rejects with the error "API Key not found" before any request is sent. Nothing is
  substituted for the result, and the state is as before the call, so that the next call
  fails in the same way: on a page whose environment never holds a key the client is
  never created, whatever events occur.
\<close>

theorem missing_api_key_rejects_every_call:
  assumes "falsy (API_KEY env)" and "genAI st = None"
  shows "generateReminderText env l d h st =
           (Inl (Error (ascii ''API Key not found'')), st,
            [call_generateReminderText l d h,
             console_error (ascii ''API_KEY is missing from environment variables.'')])
     \<and> generateSpeech env msg st =
           (Inl (Error (ascii ''API Key not found'')), st,
            [call_generateSpeech msg,
             console_error (ascii ''API_KEY is missing from environment variables.'')])
     \<and> generateSafetyImage env l st =
           (Inl (Error (ascii ''API Key not found'')), st,
            [call_generateSafetyImage l,
             console_error (ascii ''API_KEY is missing from environment variables.'')])
     \<and> (list_all (\<lambda>(env, ev). falsy (API_KEY env)) evs \<longrightarrow>
          genAI (fst (run evs (startup tza now now'))) = None)"
proof -
  have s: "genAI (startup tza now now') = None" by (simp add: startup_def)
  show ?thesis
    using generateReminderText_missing[OF assms(2,1), of l d h]
      generateSpeech_missing[OF assms(2,1), of msg]
      generateSafetyImage_missing[OF assms(2,1), of l]
      run_genAI_missing[OF s, of evs]
    by (simp add: apiKeyError_def apiKeyLog_def)
qed

theorem missing_api_key_rejects_every_call_witness:
  "falsy (API_KEY envNoKey) \<and> genAI pageOfOctober = None
   \<and> fst (generateReminderText envNoKey CRITICAL 1 4 pageOfOctober)
       = Inl (Error (ascii ''API Key not found''))
   \<and> fst (generateSpeech envNoKey errorTextFallback pageOfOctober)
       = Inl (Error (ascii ''API Key not found''))
   \<and> fst (generateSafetyImage envNoKey CRITICAL pageOfOctober)
       = Inl (Error (ascii ''API Key not found''))
   \<and> list_all (\<lambda>(env, ev). falsy (API_KEY env))
        [(envNoKey, InitialDataLoad 1730000000000), (envNoKey, TestReminderClick 1730000000000)]
   \<and> genAI (fst (run [(envNoKey, InitialDataLoad 1730000000000),
                      (envNoKey, TestReminderClick 1730000000000)]
                 (startup 0 1730000000000 1730000000000))) = None"
proof -
  have a: "falsy (API_KEY envNoKey)" by (simp add: envNoKey_def falsy_def)
  have b: "genAI pageOfOctober = None" by (simp add: pageOfOctober_def)
  have c: "list_all (\<lambda>(env, ev). falsy (API_KEY env))
        [(envNoKey, InitialDataLoad 1730000000000), (envNoKey, TestReminderClick 1730000000000)]"
    using a by simp
  show ?thesis
    using a b c
      missing_api_key_rejects_every_call[OF a b, where l = CRITICAL and d = 1 and h = 4
        and msg = errorTextFallback and tza = 0 and now = 1730000000000
        and now' = 1730000000000
        and evs = "[(envNoKey, InitialDataLoad 1730000000000),
                    (envNoKey, TestReminderClick 1730000000000)]"]
    by simp
qed

section \<open>Failure of the text request\<close>

text \<open>
  Without an API key the text call of an episode rejects: the episode rejects with it,
  and neither the message nor the popup is set. With a key and a failing request, an
  episode at a CRITICAL instant and one at a LOW instant reveal the same message.
\<close>

theorem text_failure_counterexample:
  "fst (triggerReminder envNoKey False 1733000000000 pageOfOctober)
     = Inl (Error (ascii ''API Key not found''))
   \<and> \<not> showPopup (fst (snd (triggerReminder envNoKey False 1733000000000 pageOfOctober)))
   \<and> currentMessage (fst (snd (triggerReminder envNoKey False 1733000000000 pageOfOctober)))
       = ascii ''Initializing Safety Protocols...''
   \<and> filter isReveal (snd (snd (triggerReminder envNoKey False 1733000000000 pageOfOctober))) = []
   \<and> fst (fst (calculateUrgency 1733000000000 pageOfOctober)) = CRITICAL
   \<and> fst (fst (calculateUrgency 1730000000000 pageOfOctober)) = LOW
   \<and> currentMessage (fst (snd (triggerReminder envOffline False 1733000000000 pageOfOctober)))
       = errorTextFallback
   \<and> currentMessage (fst (snd (triggerReminder envOffline False 1730000000000 pageOfOctober)))
       = errorTextFallback"
proof -
  have a: "falsy (API_KEY envNoKey)" by (simp add: envNoKey_def falsy_def)
  have b: "genAI pageOfOctober = None" by (simp add: pageOfOctober_def)
  have c: "genAI pageOfOctober \<noteq> None \<or> \<not> falsy (API_KEY envOffline)"
    by (simp add: envOffline_def falsy_def ascii_def)
  have r: "textRequest envOffline now pageOfOctober = Inl (Error (ascii ''fetch failed''))" for now
    by (simp add: textRequest_def envOffline_def split: prod.splits)
  have g: "genAI (st\<lparr>urgency := u, genAI := Some k, currentMessage := m, showPopup := True\<rparr>) \<noteq> None"
    for st :: App and u k m
    by simp
  have off: "currentMessage (fst (snd (triggerReminder envOffline False now pageOfOctober)))
      = errorTextFallback" for now
  proof -
    obtain l d h where cu: "fst (calculateUrgency now pageOfOctober) = (l, d, h)"
      by (cases "fst (calculateUrgency now pageOfOctober)")
    let ?st3 = "pageOfOctober\<lparr>urgency := l, genAI := Some (clientOf envOffline pageOfOctober),
        currentMessage := errorTextFallback, showPopup := True\<rparr>"
    obtain bf rest where sp:
      "generateSpeech envOffline errorTextFallback ?st3
         = (Inr bf, ?st3, call_generateSpeech errorTextFallback # rest)"
      by (rule generateSpeech_with_client[of ?st3 envOffline errorTextFallback]) simp_all
    show ?thesis
      by (simp add: triggerReminder_by_phase textPhase_available[OF c] cu r textOf_def sp Let_def
          split: option.splits)
  qed
  have m: "fst (fst (calculateUrgency 1733000000000 pageOfOctober)) = CRITICAL"
    "fst (fst (calculateUrgency 1730000000000 pageOfOctober)) = LOW"
    by (simp_all add: calculateUrgency_int Let_def tierOfDays_def pageOfOctober_def)
  have i: "currentMessage pageOfOctober = ascii ''Initializing Safety Protocols...''"
    "\<not> showPopup pageOfOctober"
    by (simp_all add: pageOfOctober_def)
  show ?thesis
    using triggerReminder_missing[OF b a, of False 1733000000000] off m i
    by (simp add: apiKeyError_def)
qed

lemma episode_with_blank_text:
  assumes "API_KEY env = API_KEY envBlank"
    and "generateContent env = generateContent envBlank"
    and "decodeAudioData env = decodeAudioData envBlank"
  shows "fst (triggerReminder env manual now pageOfOctober)
           = fst (playbackOf env (Some (AudioBuffer 0)))
     \<and> filter isAudioAction (snd (snd (triggerReminder env manual now pageOfOctober)))
           = [call_generateSpeech emptyTextFallback,
              request_generateContent ttsModel emptyTextFallback]
             @ filter isAudioAction (snd (playbackOf env (Some (AudioBuffer 0))))
     \<and> textRequest env now pageOfOctober
           = Inr \<lparr>response_text = Some (ascii ''  ''),
                  response_candidates =
                    Some [Candidate (Some (Content (Some [Part (Some (Blob (Some (ascii ''UklG''))))])))]\<rparr>"
proof -
  have c: "genAI pageOfOctober \<noteq> None \<or> \<not> falsy (API_KEY env)"
    by (simp add: assms(1) envBlank_def falsy_def ascii_def)
  have r: "textRequest env now pageOfOctober
      = Inr \<lparr>response_text = Some (ascii ''  ''),
             response_candidates =
               Some [Candidate (Some (Content (Some [Part (Some (Blob (Some (ascii ''UklG''))))])))]\<rparr>"
    by (simp add: textRequest_def assms(2) envBlank_def split: prod.splits)
  have e: "falsy (map_option trim (Some (ascii ''  '')))"
    by (simp add: falsy_def trim_def ascii_def isWhiteSpace_def)
  have m: "textOf (textRequest env now pageOfOctober) = emptyTextFallback"
    using e by (simp add: r textOf_def)
  obtain r2 st2 tr2 where p: "textPhase env manual now pageOfOctober = (r2, st2, tr2)"
    by (cases "textPhase env manual now pageOfOctober")
  have p2: "r2 = Inr emptyTextFallback" "genAI st2 = Some (clientOf env pageOfOctober)"
    using p by (auto simp: textPhase_available[OF c] m split: prod.splits)
  have na: "filter isAudioAction tr2 = []"
    using textPhase_no_audio[of env manual now pageOfOctober] p by simp
  have on: "isSoundEnabled pageOfOctober" by (simp add: pageOfOctober_def)
  let ?st3 = "st2\<lparr>currentMessage := emptyTextFallback, showPopup := True\<rparr>"
  have sp: "generateSpeech env emptyTextFallback ?st3
      = (Inr (Some (AudioBuffer 0)), ?st3,
         [call_generateSpeech emptyTextFallback,
          request_generateContent ttsModel emptyTextFallback])"
    by (simp add: generateSpeech_def getGenAI_def p2 Let_def assms(2,3) envBlank_def
        firstInlineData_def at0_def falsy_def ascii_def)
  show ?thesis
    using na on by (simp add: triggerReminder_by_phase p p2 sp Let_def r)
qed

text \<open>
  Claim C4, as amended. In every episode for which the provider client exists or can be
  created (the API key is present), the text call resolves, whatever the text request
  does, and the episode reveals a non-empty message: the hardcoded message
  \<open>errorTextFallback\<close> when the text request throws, the hardcoded message
  \<open>emptyTextFallback\<close> when it returns no text or only white space, and the trimmed text
  otherwise. The two hardcoded messages are the same for every tier. The failure of the
  text request is not propagated: the episode resolves, unless the playback statements
  throw after the reveal, and then it rejects with what they threw.
\<close>

theorem text_failure_falls_back:
  assumes "genAI st \<noteq> None \<or> \<not> falsy (API_KEY env)"
  shows "case triggerReminder env manual now st of
     (r, st', tr) \<Rightarrow>
       fst (textPhase env manual now st) = Inr (currentMessage st') \<and>
       showPopup st' \<and>
       currentMessage st' \<noteq> [] \<and>
       filter isReveal tr = [setCurrentMessage (currentMessage st'), setShowPopup True] \<and>
       currentMessage st' =
         (case textRequest env now st of
            Inl err \<Rightarrow> errorTextFallback
          | Inr response \<Rightarrow>
              if falsy (map_option trim (response_text response)) then emptyTextFallback
              else trim (the (response_text response))) \<and>
       (r = Inr ()
        \<or> (isSoundEnabled st \<and> (\<exists>buffer e. startPlayback env buffer = Inl e \<and> r = Inl e)))"
proof -
  obtain l d h where cu: "fst (calculateUrgency now st) = (l, d, h)"
    by (cases "fst (calculateUrgency now st)")
  let ?msg = "textOf (textRequest env now st)"
  let ?st3 = "st\<lparr>urgency := l, genAI := Some (clientOf env st),
      currentMessage := ?msg, showPopup := True\<rparr>"
  obtain r2 st2 tr2 where p: "textPhase env manual now st = (r2, st2, tr2)"
    by (cases "textPhase env manual now st")
  have p2: "r2 = Inr ?msg" "st2 = st\<lparr>urgency := l, genAI := Some (clientOf env st)\<rparr>"
    using p by (simp_all add: textPhase_available[OF assms] cu)
  have nr: "filter isReveal tr2 = []"
    using textPhase_no_reveal[of env manual now st] p by simp
  obtain bf rest where sp:
    "generateSpeech env ?msg ?st3 = (Inr bf, ?st3, call_generateSpeech ?msg # rest)"
    by (rule generateSpeech_with_client[of ?st3 env ?msg]) simp_all
  have ns: "filter isReveal (call_generateSpeech ?msg # rest) = []"
    using generateSpeech_no_reveal[of env ?msg ?st3] sp by simp
  have t: "?msg = (case textRequest env now st of
            Inl err \<Rightarrow> errorTextFallback
          | Inr response \<Rightarrow>
              if falsy (map_option trim (response_text response)) then emptyTextFallback
              else trim (the (response_text response)))"
    by (simp add: textOf_def)
  have res: "triggerReminder env manual now st =
      (if isSoundEnabled st then fst (playbackOf env bf) else Inr (), ?st3,
       tr2 @ [setCurrentMessage ?msg, setShowPopup True]
       @ (if isSoundEnabled st
          then call_generateSpeech ?msg # rest @ snd (playbackOf env bf)
          else []))"
    by (simp add: triggerReminder_by_phase p p2 sp Let_def)
  have out: "(if isSoundEnabled st then fst (playbackOf env bf) else Inr ()) = Inr ()
      \<or> (isSoundEnabled st
          \<and> (\<exists>buffer e. startPlayback env buffer = Inl e
                \<and> (if isSoundEnabled st then fst (playbackOf env bf) else Inr ()) = Inl e))"
    using playbackOf_outcome[of env bf] by (cases "isSoundEnabled st") auto
  have tp: "fst (textPhase env manual now st) = Inr ?msg" by (simp add: p p2)
  show ?thesis
    unfolding res prod.case t[symmetric]
    using nr ns out tp playbackOf_traces(1)[of env bf]
      textOf_nonempty[of "textRequest env now st"]
    by simp
qed

theorem text_failure_falls_back_witness:
  "\<not> falsy (API_KEY envOffline)
   \<and> textRequest envOffline 1733000000000 pageOfOctober = Inl (Error (ascii ''fetch failed''))
   \<and> fst (textPhase envOffline False 1733000000000 pageOfOctober) = Inr errorTextFallback
   \<and> currentMessage (fst (snd (triggerReminder envOffline False 1733000000000 pageOfOctober)))
       = errorTextFallback
   \<and> showPopup (fst (snd (triggerReminder envOffline False 1733000000000 pageOfOctober)))
   \<and> \<not> falsy (API_KEY envBlank)
   \<and> fst (triggerReminder envBlank True 1733000000000 pageOfOctober) = Inr ()
   \<and> currentMessage (fst (snd (triggerReminder envBlank True 1733000000000 pageOfOctober)))
       = emptyTextFallback
   \<and> fst (triggerReminder
            (envBlank\<lparr>startPlayback := (\<lambda>b. Inl (Error (ascii ''NotSupportedError'')))\<rparr>)
            True 1733000000000 pageOfOctober)
       = Inl (Error (ascii ''NotSupportedError''))
   \<and> currentMessage
        (fst (snd (triggerReminder
            (envBlank\<lparr>startPlayback := (\<lambda>b. Inl (Error (ascii ''NotSupportedError'')))\<rparr>)
            True 1733000000000 pageOfOctober)))
       = emptyTextFallback"
proof -
  let ?envT = "envBlank\<lparr>startPlayback := (\<lambda>b. Inl (Error (ascii ''NotSupportedError'')))\<rparr>"
  have c: "genAI pageOfOctober \<noteq> None \<or> \<not> falsy (API_KEY envOffline)"
    by (simp add: envOffline_def falsy_def ascii_def)
  have c': "genAI pageOfOctober \<noteq> None \<or> \<not> falsy (API_KEY envBlank)"
    by (simp add: envBlank_def falsy_def ascii_def)
  have c'': "genAI pageOfOctober \<noteq> None \<or> \<not> falsy (API_KEY ?envT)"
    by (simp add: envBlank_def falsy_def ascii_def)
  have r: "textRequest envOffline 1733000000000 pageOfOctober = Inl (Error (ascii ''fetch failed''))"
    by (simp add: textRequest_def envOffline_def split: prod.splits)
  have e: "falsy (map_option trim (Some (ascii ''  '')))"
    by (simp add: falsy_def trim_def ascii_def isWhiteSpace_def)
  have b: "fst (triggerReminder envBlank True 1733000000000 pageOfOctober) = Inr ()"
    using episode_with_blank_text[of envBlank True 1733000000000]
    by (simp add: playbackOf_def envBlank_def)
  have b': "fst (triggerReminder ?envT True 1733000000000 pageOfOctober)
      = Inl (Error (ascii ''NotSupportedError''))"
    using episode_with_blank_text[of ?envT True 1733000000000]
    by (simp add: playbackOf_def)
  have k: "\<not> falsy (API_KEY envOffline)" "\<not> falsy (API_KEY envBlank)"
    by (simp_all add: envOffline_def envBlank_def falsy_def ascii_def)
  show ?thesis
    using k r e b b'
      text_failure_falls_back[OF c, where manual = False and now = 1733000000000]
      text_failure_falls_back[OF c', where manual = True and now = 1733000000000]
      text_failure_falls_back[OF c'', where manual = True and now = 1733000000000]
      episode_with_blank_text[of envBlank True 1733000000000]
      episode_with_blank_text[of ?envT True 1733000000000]
    by (simp split: prod.splits)
qed

section \<open>The sound preference\<close>

lemma triggerReminder_sound_off:
  assumes "\<not> isSoundEnabled st"
  shows "filter isAudioAction (snd (snd (triggerReminder env manual now st))) = []"
  using textPhase_no_audio[of env manual now st] assms
  by (auto simp: triggerReminder_by_phase Let_def split: prod.splits sum.splits)

lemma initAudio_trace_no_audio: "filter isAudioAction (snd (initAudio st)) = []"
  by (simp add: initAudio_def Let_def)

lemma initAudio_isSoundEnabled: "isSoundEnabled (fst (initAudio st)) = isSoundEnabled st"
  by (simp add: initAudio_def Let_def)

text \<open>
  Claim C7. An episode that runs while the sound preference is false does not call
  \<^verbatim>\<open>generateSpeech\<close>, sends no speech request and starts no playback, whether it
  resolves or rejects, and whether the timer or the test button started it.
\<close>

theorem sound_off_no_speech:
  assumes "\<not> isSoundEnabled st"
  shows "filter isAudioAction (snd (snd (triggerReminder env manual now st))) = []
     \<and> filter isAudioAction (snd (hourlyTimerCheck env now now' st)) = []
     \<and> filter isAudioAction (snd (onTestReminder env now st)) = []"
proof -
  have a: "filter isAudioAction (snd (snd (triggerReminder env manual now st))) = []"
    using assms by (rule triggerReminder_sound_off)
  have s1: "\<not> isSoundEnabled (st\<lparr>lastHourCheckRef := getHours (LocalTZA env) now\<rparr>)"
    using assms by simp
  have b: "filter isAudioAction (snd (hourlyTimerCheck env now now' st)) = []"
    using triggerReminder_sound_off[OF s1, of env False now']
    by (auto simp: hourlyTimerCheck_def Let_def split: prod.splits)
  have s2: "\<not> isSoundEnabled (fst (initAudio st))"
    using assms by (simp add: initAudio_isSoundEnabled)
  have c: "filter isAudioAction (snd (onTestReminder env now st)) = []"
    using triggerReminder_sound_off[OF s2, of env True now] initAudio_trace_no_audio[of st]
    by (auto simp: onTestReminder_def split: prod.splits)
  show ?thesis using a b c by simp
qed

theorem sound_off_no_speech_witness:
  "\<not> isSoundEnabled (pageOfOctober\<lparr>isSoundEnabled := False\<rparr>)
   \<and> filter isAudioAction
        (snd (snd (triggerReminder envBlank False 1733000000000
                     (pageOfOctober\<lparr>isSoundEnabled := False\<rparr>)))) = []
   \<and> filter isAudioAction
        (snd (snd (triggerReminder envBlank False 1733000000000 pageOfOctober)))
       = [call_generateSpeech emptyTextFallback,
          request_generateContent ttsModel emptyTextFallback,
          source_start (AudioBuffer 0)]"
proof -
  have a: "\<not> isSoundEnabled (pageOfOctober\<lparr>isSoundEnabled := False\<rparr>)" by simp
  have full: "filter isAudioAction
        (snd (snd (triggerReminder envBlank False 1733000000000 pageOfOctober)))
       = [call_generateSpeech emptyTextFallback,
          request_generateContent ttsModel emptyTextFallback,
          source_start (AudioBuffer 0)]"
    using episode_with_blank_text[of envBlank False 1733000000000]
    by (simp add: playbackOf_def envBlank_def)
  show ?thesis
    using a full
      sound_off_no_speech[OF a, where env = envBlank and manual = False
        and now = 1733000000000 and now' = 1733000000000]
    by simp
qed

section \<open>The order of reveal and audio\<close>

lemma textRequest_agree:
  assumes "API_KEY env' = API_KEY env"
    and "\<forall>ai c. generateContent env' ai textModel c = generateContent env ai textModel c"
  shows "textRequest env' now st = textRequest env now st"
  using assms by (simp add: textRequest_def clientOf_def split: prod.splits option.splits)

lemma textPhase_agree:
  assumes "API_KEY env' = API_KEY env"
    and "\<forall>ai c. generateContent env' ai textModel c = generateContent env ai textModel c"
  shows "textPhase env' manual now st = textPhase env manual now st"
proof (cases "genAI st = None \<and> falsy (API_KEY env)")
  case True
  then have "genAI st = None" "falsy (API_KEY env)" "falsy (API_KEY env')"
    using assms(1) by simp_all
  then show ?thesis by (simp add: textPhase_missing)
next
  case False
  then have a: "genAI st \<noteq> None \<or> \<not> falsy (API_KEY env)" by auto
  then have a': "genAI st \<noteq> None \<or> \<not> falsy (API_KEY env')" using assms(1) by simp
  have c: "clientOf env' st = clientOf env st"
    using assms(1) by (simp add: clientOf_def split: option.splits)
  show ?thesis
    by (simp add: textPhase_available[OF a] textPhase_available[OF a']
        textRequest_agree[OF assms] c)
qed

lemma textPhase_resolved:
  assumes "textPhase env manual now st = (Inr msg, st2, tr2)"
  shows "genAI st2 \<noteq> None
     \<and> ((\<exists>p. last tr2 = request_generateContent textModel p)
         \<or> last tr2 = console_error (ascii ''Error generating text:''))"
proof (cases "genAI st = None \<and> falsy (API_KEY env)")
  case True
  then have "genAI st = None" "falsy (API_KEY env)" by simp_all
  then show ?thesis using assms by (simp add: textPhase_missing split: prod.splits)
next
  case False
  then have a: "genAI st \<noteq> None \<or> \<not> falsy (API_KEY env)" by auto
  show ?thesis
    using assms
    by (cases "textRequest env now st")
       (auto simp: textPhase_available[OF a] split: prod.splits)
qed

text \<open>
  Claim C9. An episode sets the current message and shows the popup immediately after
  the text is available: the two setters follow the text phase of the episode, whose last
  action is the text request or the log of its failure. Every action of the audio path
  (the call of \<^verbatim>\<open>generateSpeech\<close>, the speech request, the start of the playback) comes
  after them. What is revealed, and all that precedes the reveal, does not depend on what
  the audio path of the environment does.
\<close>

theorem reveal_after_text_before_audio:
  "(case textPhase env manual now st of
      (Inl e, st2, tr2) \<Rightarrow>
        triggerReminder env manual now st = (Inl e, st2, tr2)
        \<and> filter isReveal tr2 = [] \<and> filter isAudioAction tr2 = []
    | (Inr msg, st2, tr2) \<Rightarrow>
        (\<exists>post. snd (snd (triggerReminder env manual now st))
                  = tr2 @ [setCurrentMessage msg, setShowPopup True] @ post
               \<and> filter isReveal post = []
               \<and> (isSoundEnabled st \<longrightarrow> (\<exists>rest. post = call_generateSpeech msg # rest))
               \<and> (\<not> isSoundEnabled st \<longrightarrow> post = []))
        \<and> filter isReveal tr2 = [] \<and> filter isAudioAction tr2 = []
        \<and> ((\<exists>p. last tr2 = request_generateContent textModel p)
            \<or> last tr2 = console_error (ascii ''Error generating text:''))
        \<and> currentMessage (fst (snd (triggerReminder env manual now st))) = msg
        \<and> showPopup (fst (snd (triggerReminder env manual now st))))
   \<and> (API_KEY env' = API_KEY env
        \<and> (\<forall>ai c. generateContent env' ai textModel c = generateContent env ai textModel c)
       \<longrightarrow> textPhase env' manual now st = textPhase env manual now st)"
proof -
  obtain r2 st2 tr2 where p: "textPhase env manual now st = (r2, st2, tr2)"
    by (cases "textPhase env manual now st")
  have nr: "filter isReveal tr2 = []"
    using textPhase_no_reveal[of env manual now st] p by simp
  have na: "filter isAudioAction tr2 = []"
    using textPhase_no_audio[of env manual now st] p by simp
  have first: "case textPhase env manual now st of
      (Inl e, st2, tr2) \<Rightarrow>
        triggerReminder env manual now st = (Inl e, st2, tr2)
        \<and> filter isReveal tr2 = [] \<and> filter isAudioAction tr2 = []
    | (Inr msg, st2, tr2) \<Rightarrow>
        (\<exists>post. snd (snd (triggerReminder env manual now st))
                  = tr2 @ [setCurrentMessage msg, setShowPopup True] @ post
               \<and> filter isReveal post = []
               \<and> (isSoundEnabled st \<longrightarrow> (\<exists>rest. post = call_generateSpeech msg # rest))
               \<and> (\<not> isSoundEnabled st \<longrightarrow> post = []))
        \<and> filter isReveal tr2 = [] \<and> filter isAudioAction tr2 = []
        \<and> ((\<exists>p. last tr2 = request_generateContent textModel p)
            \<or> last tr2 = console_error (ascii ''Error generating text:''))
        \<and> currentMessage (fst (snd (triggerReminder env manual now st))) = msg
        \<and> showPopup (fst (snd (triggerReminder env manual now st)))"
  proof (cases r2)
    case (Inl e)
    then show ?thesis using nr na by (simp add: p triggerReminder_by_phase)
  next
    case (Inr msg)
    let ?st3 = "st2\<lparr>currentMessage := msg, showPopup := True\<rparr>"
    have q: "textPhase env manual now st = (Inr msg, st2, tr2)" using p Inr by simp
    have g: "genAI ?st3 \<noteq> None" using textPhase_resolved[OF q] by simp
    obtain bf rest where sp:
      "generateSpeech env msg ?st3 = (Inr bf, ?st3, call_generateSpeech msg # rest)"
      using g by (rule generateSpeech_with_client)
    have ns: "filter isReveal (call_generateSpeech msg # rest) = []"
      using generateSpeech_no_reveal[of env msg ?st3] sp by simp
    let ?post = "if isSoundEnabled st
          then call_generateSpeech msg # rest @ snd (playbackOf env bf)
          else []"
    have res: "triggerReminder env manual now st =
        (if isSoundEnabled st then fst (playbackOf env bf) else Inr (), ?st3,
         tr2 @ [setCurrentMessage msg, setShowPopup True] @ ?post)"
      by (simp add: triggerReminder_by_phase q sp Let_def)
    have post: "filter isReveal ?post = []"
      using ns playbackOf_traces(1)[of env bf] by simp
    have ex: "\<exists>post. snd (snd (triggerReminder env manual now st))
                  = tr2 @ [setCurrentMessage msg, setShowPopup True] @ post
               \<and> filter isReveal post = []
               \<and> (isSoundEnabled st \<longrightarrow> (\<exists>rest. post = call_generateSpeech msg # rest))
               \<and> (\<not> isSoundEnabled st \<longrightarrow> post = [])"
      by (rule exI[of _ ?post]) (use post in \<open>simp add: res\<close>)
    show ?thesis
      using ex nr na textPhase_resolved[OF q]
      by (simp add: q res)
  qed
  show ?thesis
    using first textPhase_agree[of env' env manual now st] by blast
qed

theorem reveal_after_text_before_audio_witness:
  "API_KEY (envBlank\<lparr>decodeAudioData := (\<lambda>b. Inl (Error (ascii ''bad audio'')))\<rparr>)
     = API_KEY envBlank
   \<and> textPhase (envBlank\<lparr>decodeAudioData := (\<lambda>b. Inl (Error (ascii ''bad audio'')))\<rparr>)
        False 1733000000000 pageOfOctober
       = textPhase envBlank False 1733000000000 pageOfOctober
   \<and> fst (textPhase envBlank False 1733000000000 pageOfOctober) = Inr emptyTextFallback
   \<and> isSoundEnabled pageOfOctober
   \<and> (\<exists>rest. snd (snd (triggerReminder envBlank False 1733000000000 pageOfOctober))
        = snd (snd (textPhase envBlank False 1733000000000 pageOfOctober))
          @ [setCurrentMessage emptyTextFallback, setShowPopup True]
          @ call_generateSpeech emptyTextFallback # rest)"
proof -
  let ?env' = "envBlank\<lparr>decodeAudioData := (\<lambda>b. Inl (Error (ascii ''bad audio'')))\<rparr>"
  have k: "API_KEY ?env' = API_KEY envBlank" by simp
  have gc: "\<forall>ai c. generateContent ?env' ai textModel c = generateContent envBlank ai textModel c"
    by simp
  have c: "genAI pageOfOctober \<noteq> None \<or> \<not> falsy (API_KEY envBlank)"
    by (simp add: envBlank_def falsy_def ascii_def)
  have r: "textRequest envBlank 1733000000000 pageOfOctober
      = Inr \<lparr>response_text = Some (ascii ''  ''),
             response_candidates =
               Some [Candidate (Some (Content (Some [Part (Some (Blob (Some (ascii ''UklG''))))])))]\<rparr>"
    by (simp add: textRequest_def envBlank_def split: prod.splits)
  have e: "falsy (map_option trim (Some (ascii ''  '')))"
    by (simp add: falsy_def trim_def ascii_def isWhiteSpace_def)
  have m: "fst (textPhase envBlank False 1733000000000 pageOfOctober) = Inr emptyTextFallback"
    using e by (simp add: textPhase_available[OF c] r textOf_def split: prod.splits)
  have on: "isSoundEnabled pageOfOctober" by (simp add: pageOfOctober_def)
  obtain st2 tr2
    where p: "textPhase envBlank False 1733000000000 pageOfOctober
                = (Inr emptyTextFallback, st2, tr2)"
    using m by (cases "textPhase envBlank False 1733000000000 pageOfOctober") auto
  show ?thesis
    using k gc m on
      reveal_after_text_before_audio[where env = envBlank and env' = ?env' and manual = False
        and now = 1733000000000 and st = pageOfOctober]
    by (auto simp: p)
qed

section \<open>The periodic trigger\<close>








end
